theory Spec2Isabelle
  imports
    Main
    "HOL-Library.Char_ord"
    "HOL-Library.List_Lexorder"
    "HOL-Library.Sublist"
    "HOL-Library.Multiset"
begin

section \<open>Go standard-library functions used by the generator\<close>

text \<open>
  Go strings are byte sequences; they are modelled as \<open>string\<close> (a \<open>char list\<close>, one
  \<open>char\<close> per byte). \<open>sort.Strings\<close> compares byte-wise, which is the lexicographic order
  of \<open>HOL-Library.List_Lexorder\<close> over the byte order of \<open>HOL-Library.Char_ord\<close>.
\<close>

definition HasPrefix :: "string \<Rightarrow> string \<Rightarrow> bool" where
  "HasPrefix s p = prefix p s"

definition TrimPrefix :: "string \<Rightarrow> string \<Rightarrow> string" where
  "TrimPrefix s p = (if HasPrefix s p then drop (length p) s else s)"

definition HasSuffix :: "string \<Rightarrow> string \<Rightarrow> bool" where
  "HasSuffix s x = (length x \<le> length s \<and> drop (length s - length x) s = x)"

definition TrimSuffix :: "string \<Rightarrow> string \<Rightarrow> string" where
  "TrimSuffix s x = (if HasSuffix s x then take (length s - length x) s else s)"

text \<open>
  \<open>cut sep s\<close> splits \<open>s\<close> around the first (leftmost) instance of a non-empty \<open>sep\<close>,
  as \<open>strings.Cut\<close> does. Every separator the generator passes is a non-empty literal;
  for the empty separator the model answers \<open>None\<close>.
\<close>

fun cut :: "string \<Rightarrow> string \<Rightarrow> (string \<times> string) option" where
  "cut sep [] = None"
| "cut sep (c # s) =
     (if sep = [] then None
      else if prefix sep (c # s) then Some ([], drop (length sep) (c # s))
      else map_option (\<lambda>(a, b). (c # a, b)) (cut sep s))"

lemma cut_shorter: "cut sep s = Some (a, b) \<Longrightarrow> length b < length s"
proof (induction s arbitrary: a b)
  case Nil
  then show ?case by simp
next
  case (Cons c s)
  show ?case
  proof (cases "sep = []")
    case True
    with Cons.prems show ?thesis by simp
  next
    case sep: False
    show ?thesis
    proof (cases "prefix sep (c # s)")
      case True
      with sep Cons.prems have "b = drop (length sep) (c # s)" by simp
      moreover from sep have "0 < length sep" by simp
      ultimately show ?thesis by simp
    next
      case False
      with sep Cons.prems obtain a' where "cut sep s = Some (a', b)"
        by (auto split: prod.splits)
      from Cons.IH [OF this] show ?thesis by simp
    qed
  qed
qed

text \<open>\<open>strings.Split(s, sep)\<close>: all substrings between the non-overlapping instances of \<open>sep\<close>.\<close>

function Split :: "string \<Rightarrow> string \<Rightarrow> string list" where
  "Split s sep = (case cut sep s of None \<Rightarrow> [s] | Some (a, b) \<Rightarrow> a # Split b sep)"
  by pat_completeness auto
termination
  by (relation "measure (\<lambda>(s, sep). length s)") (auto dest: cut_shorter)

declare Split.simps [simp del]

text \<open>\<open>strings.SplitN(s, sep, 2)\<close>: at most two substrings, the second the unsplit remainder.\<close>

definition SplitN2 :: "string \<Rightarrow> string \<Rightarrow> string list" where
  "SplitN2 s sep = (case cut sep s of None \<Rightarrow> [s] | Some (a, b) \<Rightarrow> [a, b])"

fun Join :: "string list \<Rightarrow> string \<Rightarrow> string" where
  "Join [] sep = []"
| "Join [x] sep = x"
| "Join (x # y # xs) sep = x @ sep @ Join (y # xs) sep"

text \<open>
  For a non-empty \<open>old\<close>, \<open>strings.ReplaceAll\<close> replaces exactly the non-overlapping instances
  that \<open>strings.Split\<close> separates at, and \<open>strings.Count\<close> counts them.
\<close>

definition ReplaceAll :: "string \<Rightarrow> string \<Rightarrow> string \<Rightarrow> string" where
  "ReplaceAll s old new = Join (Split s old) new"

definition Count :: "string \<Rightarrow> string \<Rightarrow> nat" where
  "Count s sub = length (Split s sub) - 1"

definition Repeat :: "string \<Rightarrow> nat \<Rightarrow> string" where
  "Repeat s n = concat (replicate n s)"

text \<open>
  \<open>strings.ToUpper\<close> on ASCII letters; other bytes are left as they are (protobuf
  identifiers are ASCII).
\<close>

definition ToUpperChar :: "char \<Rightarrow> char" where
  "ToUpperChar c =
     (case map_of (zip ''abcdefghijklmnopqrstuvwxyz'' ''ABCDEFGHIJKLMNOPQRSTUVWXYZ'') c of
        None \<Rightarrow> c | Some u \<Rightarrow> u)"

definition ToUpper :: "string \<Rightarrow> string" where
  "ToUpper s = map ToUpperChar s"

text \<open>\<open>strconv.Itoa\<close>: the decimal representation of an integer.\<close>

fun digits :: "nat \<Rightarrow> string" where
  "digits n =
     (if n < 10 then [''0123456789'' ! n]
      else digits (n div 10) @ [''0123456789'' ! (n mod 10)])"

declare digits.simps [simp del]

definition Itoa :: "int \<Rightarrow> string" where
  "Itoa i = (if i < 0 then CHR ''-'' # digits (nat (- i)) else digits (nat i))"

text \<open>
  \<open>strconv.ParseBool\<close> accepts exactly the twelve spellings below; anything else is a
  syntax error.
\<close>

definition ParseBool :: "string \<Rightarrow> bool option" where
  "ParseBool v =
     (if v \<in> set [''1'', ''t'', ''T'', ''TRUE'', ''true'', ''True''] then Some True
      else if v \<in> set [''0'', ''f'', ''F'', ''FALSE'', ''false'', ''False''] then Some False
      else None)"

subsection \<open>Package \<open>path\<close>\<close>

definition IsAbs :: "string \<Rightarrow> bool" where
  "IsAbs p = (case p of [] \<Rightarrow> False | c # _ \<Rightarrow> c = CHR ''/'')"

text \<open>
  \<open>path.Ext\<close>: the suffix beginning at the final dot in the final slash-separated
  element; empty if there is no dot. The source scans from the end of the path and stops
  at a slash.
\<close>

fun ext_scan :: "string \<Rightarrow> string \<Rightarrow> string" where
  "ext_scan [] acc = []"
| "ext_scan (c # r) acc =
     (if c = CHR ''/'' then []
      else if c = CHR ''.'' then c # acc
      else ext_scan r (c # acc))"

definition Ext :: "string \<Rightarrow> string" where
  "Ext p = ext_scan (rev p) []"

text \<open>
  \<open>path.Base\<close>: the last element of the path, after removing trailing slashes;
  \<open>"."\<close> for the empty path and \<open>"/"\<close> for a path of slashes only.
\<close>

definition Base :: "string \<Rightarrow> string" where
  "Base p =
     (if p = [] then ''.''
      else let q = rev (dropWhile (\<lambda>c. c = CHR ''/'') (rev p));
               b = rev (takeWhile (\<lambda>c. c \<noteq> CHR ''/'') (rev q))
           in if b = [] then ''/'' else b)"

text \<open>
  \<open>path.Clean\<close>, as its loop is written: \<open>out\<close> is the output buffer, \<open>dotdot\<close> the
  index in it where backtracking over \<open>..\<close> must stop, and the last argument is the
  unread rest of the path.
\<close>

definition backtrack :: "nat \<Rightarrow> string \<Rightarrow> string" where
  "backtrack dotdot out =
     take dotdot out @ rev (tl (dropWhile (\<lambda>c. c \<noteq> CHR ''/'') (rev (drop dotdot out))))"

function clean_loop :: "bool \<Rightarrow> string \<Rightarrow> nat \<Rightarrow> string \<Rightarrow> string" where
  "clean_loop rooted out dotdot [] = out"
| "clean_loop rooted out dotdot (c # r) =
     (if c = CHR ''/'' then clean_loop rooted out dotdot r
      else if c = CHR ''.'' \<and> (r = [] \<or> hd r = CHR ''/'') then clean_loop rooted out dotdot r
      else if c = CHR ''.'' \<and> r \<noteq> [] \<and> hd r = CHR ''.'' \<and> (tl r = [] \<or> hd (tl r) = CHR ''/'') then
        (if length out > dotdot then clean_loop rooted (backtrack dotdot out) dotdot (tl r)
         else if \<not> rooted then
           (let out' = (if out \<noteq> [] then out @ ''/'' else out) @ ''..''
            in clean_loop rooted out' (length out') (tl r))
         else clean_loop rooted out dotdot (tl r))
      else
        (let out' = (if (rooted \<and> length out \<noteq> 1) \<or> (\<not> rooted \<and> length out \<noteq> 0)
                     then out @ ''/'' else out)
         in clean_loop rooted (out' @ takeWhile (\<lambda>x. x \<noteq> CHR ''/'') (c # r)) dotdot
              (dropWhile (\<lambda>x. x \<noteq> CHR ''/'') (c # r))))"
  by pat_completeness auto
termination
proof (relation "measure (\<lambda>(rooted, out, dotdot, rest). length rest)", goal_cases)
  case 1
  show ?case by simp
next
  case (2 rooted out dotdot c r)
  show ?case by simp
next
  case (3 rooted out dotdot c r)
  show ?case by simp
next
  case (4 rooted out dotdot c r)
  then show ?case by (cases r) auto
next
  case (5 rooted out dotdot c r x)
  then show ?case by (cases r) auto
next
  case (6 rooted out dotdot c r)
  then show ?case by (cases r) auto
next
  case (7 rooted out dotdot c r x)
  have "length (dropWhile (\<lambda>x. x \<noteq> CHR ''/'') r) \<le> length r"
    by (rule length_dropWhile_le)
  with 7 show ?case by simp
qed

declare clean_loop.simps [simp del]

definition Clean :: "string \<Rightarrow> string" where
  "Clean p =
     (if p = [] then ''.''
      else let rooted = (hd p = CHR ''/'');
               out = (if rooted then clean_loop True ''/'' 1 (tl p)
                      else clean_loop False [] 0 p)
           in if out = [] then ''.'' else out)"

section \<open>Identifier and path utilities\<close>

text \<open>\<open>toit.Path\<close> (toit/path.go): a file path in module-path syntax.\<close>

definition Path :: "string \<Rightarrow> string" where
  "Path p0 =
     (let p = Clean p0;
          p = (if \<not> IsAbs p then ''.'' @ ReplaceAll p ''../'' ''.'' else tl p);
          p = (if Ext p = ''.toit'' then TrimSuffix p ''.toit'' else p)
      in ReplaceAll p ''/'' ''.'')"

definition protoToFile :: "string \<Rightarrow> string" where
  "protoToFile f =
     (if HasSuffix f ''.proto'' then TrimSuffix f ''.proto'' @ ''_pb.toit'' else f)"

text \<open>
  \<open>toit.ToSnakeCase\<close> belongs to a file of package \<open>toit\<close> that is not part of the
  sources at hand; \<open>fileImportAlias\<close> takes it as the parameter \<open>snake\<close>.
\<close>

definition fileImportAlias :: "(string \<Rightarrow> string) \<Rightarrow> string \<Rightarrow> string" where
  "fileImportAlias snake f = snake (''_'' @ TrimSuffix (Base f) (Ext f))"

definition relToitPath :: "string \<Rightarrow> string \<Rightarrow> string" where
  "relToitPath fromFile toFile = Path (Repeat ''../'' (Count fromFile ''/'') @ toFile)"

section \<open>Import resolver\<close>

text \<open>
  A Go \<open>map[string]string\<close> is an association list with distinct keys: \<open>m[k] = v\<close> is
  \<open>go_put\<close>, and reading a key that is absent gives the empty string. The order in which
  \<open>range\<close> visits a map is not specified by Go; wherever the source ranges over a map the
  model takes the order as a parameter \<open>rng\<close>, a function that rearranges the entries.
\<close>

type_synonym gomap = "(string \<times> string) list"

fun go_put :: "'k \<Rightarrow> 'v \<Rightarrow> ('k \<times> 'v) list \<Rightarrow> ('k \<times> 'v) list" where
  "go_put k v [] = [(k, v)]"
| "go_put k v ((k', v') # m) = (if k' = k then (k, v) # m else (k', v') # go_put k v m)"

definition go_get :: "('k \<times> string) list \<Rightarrow> 'k \<Rightarrow> string" where
  "go_get m k = (case map_of m k of None \<Rightarrow> [] | Some v \<Rightarrow> v)"

definition protoLibrary :: string where
  "protoLibrary = ''protogen''"

record importResolver =
  keys :: "string list"
  values' :: gomap

definition newImportResolver :: "(gomap \<Rightarrow> gomap) \<Rightarrow> gomap \<Rightarrow> importResolver" where
  "newImportResolver rng importLibraries0 =
     (let importLibraries = go_put ''google/protobuf/'' (protoLibrary @ ''.google.protobuf'') importLibraries0
      in \<lparr> keys = sort (map fst (rng importLibraries)), values' = importLibraries \<rparr>)"

text \<open>
  The loop of \<open>resolveImport\<close> walks the sorted keys from the last to the first and stops
  at the first one that is a prefix of the imported file.
\<close>

definition resolveImport :: "importResolver \<Rightarrow> string \<Rightarrow> string \<Rightarrow> string" where
  "resolveImport r sourceFile importFile =
     (let prefixKey = find (\<lambda>prefix. HasPrefix importFile prefix) (rev (keys r));
          importProtoFile = protoToFile importFile
      in case prefixKey of
           None \<Rightarrow> relToitPath sourceFile importProtoFile
         | Some k \<Rightarrow> go_get (values' r) k @ Path (TrimPrefix importProtoFile k))"

section \<open>Descriptors\<close>

text \<open>
  The descriptor types of the protobuf library, with the fields the generator reads.
  A getter of the library returns the zero value for an unset field, so an unset name is
  the empty string; \<open>Package\<close> and \<open>OneofIndex\<close> are tested against \<open>nil\<close> by the
  generator and are options. \<open>LABEL_UNKNOWN\<close> stands for a label outside the three
  declared values, and \<open>map_entry\<close> is \<open>GetOptions().GetMapEntry()\<close>.
\<close>

datatype FieldLabel = LABEL_OPTIONAL | LABEL_REQUIRED | LABEL_REPEATED | LABEL_UNKNOWN

datatype FieldKind =
    TYPE_DOUBLE | TYPE_FLOAT | TYPE_INT64 | TYPE_UINT64 | TYPE_INT32 | TYPE_FIXED64
  | TYPE_FIXED32 | TYPE_BOOL | TYPE_STRING | TYPE_GROUP | TYPE_MESSAGE | TYPE_BYTES
  | TYPE_UINT32 | TYPE_ENUM | TYPE_SFIXED32 | TYPE_SFIXED64 | TYPE_SINT32 | TYPE_SINT64

record FieldDescriptorProto =
  field_name :: string
  field_number :: int
  field_label :: FieldLabel
  field_type :: FieldKind
  field_type_name :: string
  field_oneof_index :: "int option"

record EnumValueDescriptorProto =
  value_name :: string
  value_number :: int

record EnumDescriptorProto =
  enum_name :: string
  enum_value :: "EnumValueDescriptorProto list"

datatype OneofDescriptorProto = OneofDescriptorProto (oneof_name: string)

datatype DescriptorProto =
  DescriptorProto
    (msg_name: string)
    (msg_field: "FieldDescriptorProto list")
    (msg_nested_type: "DescriptorProto list")
    (msg_enum_type: "EnumDescriptorProto list")
    (msg_oneof_decl: "OneofDescriptorProto list")
    (map_entry: bool)

record FileDescriptorProto =
  file_name :: string
  file_package :: "string option"
  file_dependency :: "string list"
  file_message_type :: "DescriptorProto list"
  file_enum_type :: "EnumDescriptorProto list"

record CodeGeneratorRequest =
  file_to_generate :: "string list"
  parameter :: string
  proto_file :: "FileDescriptorProto list"

text \<open>A generated file of the response: its name and its content.\<close>

record 'c CodeGeneratorResponse_File =
  resp_name :: string
  resp_content :: 'c

section \<open>Errors\<close>

text \<open>
  Every error the generator returns is a value of \<open>error\<close>. \<open>Panic\<close> is a run-time panic
  of Go (an index out of range, a nil dereference), \<open>StackOverflow\<close> the fatal error of
  the Go runtime when a recursion never returns, and \<open>WriterError\<close> an error returned by a
  method of the code writer.
\<close>

datatype error =
    ParseOptionError string
  | FieldTypeNotFound string string
  | FieldTypeNotMessage string
  | UnknownFieldLabel
  | LocalEnumNotFound string
  | LocalMsgNotFound string
  | NameClash string string
  | ImportAliasNotFound string string
  | NoDefaultValue string
  | UnknownType
  | UnsupportedProtobufType
  | WriterError string
  | Panic string
  | StackOverflow

definition bindE :: "error + 'a \<Rightarrow> ('a \<Rightarrow> error + 'b) \<Rightarrow> error + 'b" where
  "bindE x f = (case x of Inl e \<Rightarrow> Inl e | Inr v \<Rightarrow> f v)"

text \<open>Indexing a slice: out of range is a panic.\<close>

definition index :: "'a list \<Rightarrow> int \<Rightarrow> error + 'a" where
  "index xs i =
     (if 0 \<le> i \<and> i < int (length xs) then Inr (xs ! nat i) else Inl (Panic ''index out of range''))"

section \<open>Type registry\<close>

datatype referType =
  ReferType
    (rt_file: FileDescriptorProto)
    (rt_parent: "referType option")
    (rt_enum: "EnumDescriptorProto option")
    (rt_msg: "DescriptorProto option")

definition elementName :: "referType \<Rightarrow> string" where
  "elementName t =
     (case rt_enum t of Some e \<Rightarrow> enum_name e
      | None \<Rightarrow> (case rt_msg t of Some m \<Rightarrow> msg_name m | None \<Rightarrow> []))"

fun Name :: "referType \<Rightarrow> string" where
  "Name (ReferType file parent enum msg) =
     (case parent of
        Some p \<Rightarrow> Name p @ ''.'' @ elementName (ReferType file parent enum msg)
      | None \<Rightarrow>
          (case file_package file of
             None \<Rightarrow> ''.'' @ elementName (ReferType file parent enum msg)
           | Some pkg \<Rightarrow> ''.'' @ pkg @ ''.'' @ elementName (ReferType file parent enum msg)))"

text \<open>The loop of \<open>ToitType\<close> collects the element names of the enclosing types, nearest first.\<close>

fun parentNames :: "referType option \<Rightarrow> string list" where
  "parentNames None = []"
| "parentNames (Some (ReferType file parent enum msg)) =
     elementName (ReferType file parent enum msg) # parentNames parent"

definition toitClassName :: "string \<Rightarrow> string list \<Rightarrow> string" where
  "toitClassName typ super = (if super = [] then typ else Join super ''_'' @ ''_'' @ typ)"

definition ToitType :: "referType \<Rightarrow> string \<Rightarrow> string" where
  "ToitType t importAlias =
     (let res = toitClassName (elementName t) (parentNames (rt_parent t))
      in if importAlias = [] then res else importAlias @ ''.'' @ res)"

record generatorOptions =
  ConstructorInitializers :: bool
  ConvertHooks :: bool
  CoreObjects :: bool
  ImportLibraries :: gomap

record generator =
  g_req :: CodeGeneratorRequest
  g_options :: generatorOptions
  g_importResolver :: importResolver
  g_types :: "string \<rightharpoonup> referType"
  g_imports :: "string \<rightharpoonup> string"

type_synonym registry = "string \<rightharpoonup> referType"

fun resolveEnumTypes ::
  "EnumDescriptorProto list \<Rightarrow> referType option \<Rightarrow> FileDescriptorProto \<Rightarrow> registry \<Rightarrow> registry"
where
  "resolveEnumTypes [] parent file types = types"
| "resolveEnumTypes (enum # enums) parent file types =
     (let t = ReferType file parent (Some enum) None
      in resolveEnumTypes enums parent file (types(Name t \<mapsto> t)))"

fun resolveMessageTypes ::
  "DescriptorProto list \<Rightarrow> referType option \<Rightarrow> FileDescriptorProto \<Rightarrow> registry \<Rightarrow> registry"
where
  "resolveMessageTypes [] parent file types = types"
| "resolveMessageTypes (DescriptorProto n fs nested enums oneofs me # msgs) parent file types =
     (let t = ReferType file parent None (Some (DescriptorProto n fs nested enums oneofs me));
          types1 = types(Name t \<mapsto> t);
          types2 = resolveEnumTypes enums (Some t) file types1;
          types3 = resolveMessageTypes nested (Some t) file types2
      in resolveMessageTypes msgs parent file types3)"

fun resolveTypesFiles :: "FileDescriptorProto list \<Rightarrow> registry \<Rightarrow> registry" where
  "resolveTypesFiles [] types = types"
| "resolveTypesFiles (f # fs) types =
     resolveTypesFiles fs
       (resolveMessageTypes (file_message_type f) None f
          (resolveEnumTypes (file_enum_type f) None f types))"

definition resolveTypes :: "generator \<Rightarrow> generator" where
  "resolveTypes g = g\<lparr> g_types := resolveTypesFiles (proto_file (g_req g)) (g_types g) \<rparr>"

definition lookupType :: "generator \<Rightarrow> string \<Rightarrow> referType option" where
  "lookupType g typ = g_types g typ"

section \<open>Field classification\<close>

datatype fieldTypeClass =
  fieldTypeClassPrimitive | fieldTypeClassList | fieldTypeClassMap | fieldTypeClassObject

datatype fieldType =
  FieldType
    (ft_class: fieldTypeClass)
    (ft_field: FieldDescriptorProto)
    (ft_t: "referType option")
    (ft_valueType: "fieldType option")
    (ft_keyType: "fieldType option")

text \<open>
  \<open>GetMapFields\<close> of the protobuf library returns the first two fields of a map-entry
  message; with fewer than two fields the indexing panics. The generator calls it on
  map-entry messages only.
\<close>

definition GetMapFields :: "DescriptorProto \<Rightarrow> error + (FieldDescriptorProto \<times> FieldDescriptorProto)" where
  "GetMapFields m =
     (if map_entry m then
        (case msg_field m of
           k # v # _ \<Rightarrow> Inr (k, v)
         | _ \<Rightarrow> Inl (Panic ''index out of range''))
      else Inl (Panic ''nil field''))"

text \<open>
  \<open>resolveFieldType\<close> calls itself on the key and the value field of a map-entry message,
  which it finds through the registry and not inside its argument, so nothing bounds the
  recursion. \<open>resolveFieldType_opt\<close> is the function as written, \<open>None\<close> meaning that
  the call does not return. In Go a recursion that never returns exhausts the stack and the
  runtime stops the process: this is the error \<open>StackOverflow\<close> of \<open>resolveFieldType\<close>.
\<close>

partial_function (option) resolveFieldType_opt ::
  "generator \<Rightarrow> FieldDescriptorProto \<Rightarrow> bool \<Rightarrow> (error + fieldType) option"
where
  "resolveFieldType_opt g field ignoreRepeated =
     (case (if field_type field = TYPE_MESSAGE \<or> field_type field = TYPE_ENUM
            then (case lookupType g (field_type_name field) of
                    None \<Rightarrow> Inl (FieldTypeNotFound (field_type_name field) (field_name field))
                  | Some rt \<Rightarrow> Inr (Some rt))
            else Inr None) of
        Inl e \<Rightarrow> Some (Inl e)
      | Inr t \<Rightarrow>
          (case (if ignoreRepeated \<and> field_label field = LABEL_REPEATED
                 then LABEL_REQUIRED else field_label field) of
             LABEL_OPTIONAL \<Rightarrow>
               Some (Inr (FieldType
                 (if field_type field = TYPE_MESSAGE then fieldTypeClassObject else fieldTypeClassPrimitive)
                 field t None None))
           | LABEL_REQUIRED \<Rightarrow>
               Some (Inr (FieldType
                 (if field_type field = TYPE_MESSAGE then fieldTypeClassObject else fieldTypeClassPrimitive)
                 field t None None))
           | LABEL_REPEATED \<Rightarrow>
               (if field_type field \<noteq> TYPE_MESSAGE \<or>
                   (case t of
                      Some rt \<Rightarrow> (case rt_msg rt of Some m \<Rightarrow> \<not> map_entry m | None \<Rightarrow> False)
                    | None \<Rightarrow> False)
                then
                  Option.bind (resolveFieldType_opt g field True) (\<lambda>r.
                    case r of
                      Inl e \<Rightarrow> Some (Inl e)
                    | Inr valueField \<Rightarrow>
                        Some (Inr (FieldType fieldTypeClassList field t (Some valueField) None)))
                else
                  (case t of
                     None \<Rightarrow> Some (Inl (Panic ''nil referType''))
                   | Some rt \<Rightarrow>
                       (case rt_msg rt of
                          None \<Rightarrow> Some (Inl (FieldTypeNotMessage (field_name field)))
                        | Some m \<Rightarrow>
                            (case GetMapFields m of
                               Inl e \<Rightarrow> Some (Inl e)
                             | Inr (k, v) \<Rightarrow>
                                 Option.bind (resolveFieldType_opt g k False) (\<lambda>rk.
                                   case rk of
                                     Inl e \<Rightarrow> Some (Inl e)
                                   | Inr keyField \<Rightarrow>
                                       Option.bind (resolveFieldType_opt g v False) (\<lambda>rv.
                                         case rv of
                                           Inl e \<Rightarrow> Some (Inl e)
                                         | Inr valueField \<Rightarrow>
                                             Some (Inr (FieldType fieldTypeClassMap field t
                                               (Some valueField) (Some keyField)))))))))
           | LABEL_UNKNOWN \<Rightarrow> Some (Inl UnknownFieldLabel)))"

declare resolveFieldType_opt.simps [code]

definition resolveFieldType :: "generator \<Rightarrow> FieldDescriptorProto \<Rightarrow> bool \<Rightarrow> error + fieldType" where
  "resolveFieldType g field ignoreRepeated =
     (case resolveFieldType_opt g field ignoreRepeated of
        None \<Rightarrow> Inl StackOverflow
      | Some r \<Rightarrow> r)"

section \<open>Generated names\<close>

text \<open>
  \<open>util.StringSet\<close> is declared in a file that is not part of the sources at hand. It is
  taken to be a finite set of strings (\<open>NewStringSet\<close> of its elements, \<open>Contains\<close> for
  membership, \<open>Add\<close> for insertion) and modelled as the list of its elements.
\<close>

type_synonym StringSet = "string list"

definition Contains :: "StringSet \<Rightarrow> string \<Rightarrow> bool" where
  "Contains ns x = (x \<in> set ns)"

definition Add :: "StringSet \<Rightarrow> string list \<Rightarrow> StringSet" where
  "Add ns xs = ns @ xs"

lemma filter_length_less:
  "x \<in> set xs \<Longrightarrow> P x \<Longrightarrow> \<not> Q x \<Longrightarrow> (\<And>y. Q y \<Longrightarrow> P y) \<Longrightarrow>
     length (filter Q xs) < length (filter P xs)"
proof (induction xs)
  case Nil
  then show ?case by simp
next
  case (Cons a xs)
  have le: "length (filter Q xs) \<le> length (filter P xs)"
  proof (induction xs)
    case Nil
    show ?case by simp
  next
    case (Cons b ys)
    with \<open>\<And>y. Q y \<Longrightarrow> P y\<close> show ?case by auto
  qed
  show ?case
  proof (cases "x = a")
    case True
    with Cons.prems le show ?thesis by simp
  next
    case False
    with Cons have "length (filter Q xs) < length (filter P xs)" by simp
    with Cons.prems(4) show ?thesis by auto
  qed
qed

text \<open>
  The loop of \<open>uniqueName\<close> prepends the prefix while the name is in the namespace. Every
  call of the generator passes the prefix \<open>"_"\<close>; with an empty prefix and a name in the
  namespace the source would not return, and the model returns the name.
\<close>

function uniqueName :: "string \<Rightarrow> StringSet \<Rightarrow> string \<Rightarrow> string" where
  "uniqueName name namespace pre =
     (if pre \<noteq> [] \<and> Contains namespace name
      then uniqueName (pre @ name) namespace pre
      else name)"
  by pat_completeness auto
termination
proof (relation "measure (\<lambda>(name, namespace, pre).
    length (filter (\<lambda>x. length name \<le> length x) namespace))", goal_cases)
  case 1
  show ?case by simp
next
  case (2 name namespace pre)
  then have "name \<in> set namespace" and "0 < length pre"
    by (simp_all add: Contains_def)
  then have "length (filter (\<lambda>x. length (pre @ name) \<le> length x) namespace)
      < length (filter (\<lambda>x. length name \<le> length x) namespace)"
    by (intro filter_length_less [where x = name]) auto
  then show ?case by simp
qed

declare uniqueName.simps [simp del]

definition reservedFieldNames :: StringSet where
  "reservedFieldNames = [''operator'', ''static'', ''class'', ''constructor'', ''interface'']"

definition typeName :: "string \<Rightarrow> string list \<Rightarrow> string" where
  "typeName name typePath = ''.'' @ Join (typePath @ [name]) ''.''"

record oneofType =
  ot_FieldName :: string
  ot_CaseName :: string
  ot_CaseGetter :: string
  ot_ClearFunction :: string
  ot_CaseFields :: "(int \<times> string) list"
  ot_Descriptor :: OneofDescriptorProto

definition FieldName :: "fieldType \<Rightarrow> oneofType list \<Rightarrow> error + string" where
  "FieldName f oneofTypes =
     (case field_oneof_index (ft_field f) of
        None \<Rightarrow> Inr (uniqueName (field_name (ft_field f)) reservedFieldNames ''_'')
      | Some i \<Rightarrow>
          bindE (index oneofTypes i) (\<lambda>oneof.
            Inr (go_get (ot_CaseFields oneof) (field_number (ft_field f)))))"

definition coreDurationMessage :: string where
  "coreDurationMessage = ''.google.protobuf.Duration''"

definition coreTimestampMessage :: string where
  "coreTimestampMessage = ''.google.protobuf.Timestamp''"

text \<open>
  The alias under which the file declaring a type is imported; the two error messages of
  the source (``for file'', ``for field'') carry the same two strings.
\<close>

definition importAliasOf :: "generator \<Rightarrow> referType \<Rightarrow> error + string" where
  "importAliasOf g t =
     (case g_imports g (file_name (rt_file t)) of
        None \<Rightarrow> Inl (ImportAliasNotFound (file_name (rt_file t)) (Name t))
      | Some importAlias \<Rightarrow> Inr importAlias)"

text \<open>Calling a method of a \<open>referType\<close> through a nil pointer panics.\<close>

definition deref :: "referType option \<Rightarrow> error + referType" where
  "deref t = (case t of None \<Rightarrow> Inl (Panic ''nil referType'') | Some rt \<Rightarrow> Inr rt)"

definition DefaultValue :: "generator \<Rightarrow> fieldType \<Rightarrow> error + string" where
  "DefaultValue g f =
     (case ft_class f of
        fieldTypeClassPrimitive \<Rightarrow>
          (let ty = field_type (ft_field f)
           in if ty = TYPE_DOUBLE \<or> ty = TYPE_FLOAT then Inr ''0.0''
              else if ty \<in> {TYPE_INT64, TYPE_UINT64, TYPE_INT32, TYPE_UINT32, TYPE_FIXED64,
                     TYPE_FIXED32, TYPE_SFIXED64, TYPE_SFIXED32, TYPE_SINT64, TYPE_SINT32}
                then Inr ''0''
              else if ty = TYPE_BOOL then Inr ''false''
              else if ty = TYPE_STRING then Inr [CHR 0x22, CHR 0x22]
              else if ty = TYPE_MESSAGE then
                bindE (deref (ft_t f)) (\<lambda>t.
                bindE (importAliasOf g t) (\<lambda>importAlias. Inr (ToitType t importAlias)))
              else if ty = TYPE_BYTES then Inr ''ByteArray 0''
              else if ty = TYPE_ENUM then Inr ''0''
              else Inl (NoDefaultValue (field_name (ft_field f))))
      | fieldTypeClassObject \<Rightarrow>
          bindE (deref (ft_t f)) (\<lambda>t.
            if CoreObjects (g_options g) \<and> Name t = coreDurationMessage
              then Inr ''_core.Duration.ZERO''
            else if CoreObjects (g_options g) \<and> Name t = coreTimestampMessage
              then Inr ''_protobuf.TIME_ZERO_EPOCH''
            else bindE (importAliasOf g t) (\<lambda>importAlias. Inr (ToitType t importAlias)))
      | fieldTypeClassList \<Rightarrow> Inr ''[]''
      | fieldTypeClassMap \<Rightarrow> Inr ''{:}'')"

definition optionalType :: "string \<Rightarrow> bool \<Rightarrow> string" where
  "optionalType typ optional = (if optional then typ @ ''?'' else typ)"

definition FieldTypeToToitType ::
  "FieldKind \<Rightarrow> bool \<Rightarrow> bool \<Rightarrow> referType option \<Rightarrow> generator \<Rightarrow> error + string"
where
  "FieldTypeToToitType ft optional inComment t g =
     (case ft of
        TYPE_DOUBLE \<Rightarrow> Inr (optionalType ''float'' optional)
      | TYPE_FLOAT \<Rightarrow> Inr (optionalType ''float'' optional)
      | TYPE_INT64 \<Rightarrow> Inr (optionalType ''int'' optional)
      | TYPE_UINT64 \<Rightarrow> Inr (optionalType ''int'' optional)
      | TYPE_INT32 \<Rightarrow> Inr (optionalType ''int'' optional)
      | TYPE_UINT32 \<Rightarrow> Inr (optionalType ''int'' optional)
      | TYPE_FIXED64 \<Rightarrow> Inr (optionalType ''int'' optional)
      | TYPE_FIXED32 \<Rightarrow> Inr (optionalType ''int'' optional)
      | TYPE_BOOL \<Rightarrow> Inr (optionalType ''bool'' optional)
      | TYPE_STRING \<Rightarrow> Inr (optionalType ''string'' optional)
      | TYPE_MESSAGE \<Rightarrow>
          bindE (deref t) (\<lambda>rt.
            if CoreObjects (g_options g) \<and> Name rt = coreDurationMessage
              then Inr (optionalType ''_core.Duration'' optional)
            else if CoreObjects (g_options g) \<and> Name rt = coreTimestampMessage
              then Inr (optionalType ''_core.Time'' optional)
            else bindE (importAliasOf g rt) (\<lambda>importAlias.
                   Inr (optionalType (ToitType rt importAlias) optional)))
      | TYPE_BYTES \<Rightarrow> Inr (optionalType ''ByteArray'' optional)
      | TYPE_ENUM \<Rightarrow>
          bindE (deref t) (\<lambda>rt.
          bindE (importAliasOf g rt) (\<lambda>importAlias.
            let className = ToitType rt importAlias;
                actual = optionalType (''enum<'' @ className @ ''>'') optional
            in if inComment then Inr actual
               else Inr (optionalType ''int'' optional @ ''/*'' @ actual @ ''*/'')))
      | TYPE_SFIXED32 \<Rightarrow> Inr (optionalType ''int'' optional)
      | TYPE_SFIXED64 \<Rightarrow> Inr (optionalType ''int'' optional)
      | TYPE_SINT32 \<Rightarrow> Inr (optionalType ''int'' optional)
      | TYPE_SINT64 \<Rightarrow> Inr (optionalType ''int'' optional)
      | TYPE_GROUP \<Rightarrow> Inl UnknownType)"

text \<open>
  \<open>toitTypeAnnotation\<close> goes into the value and key types of a list or map; a nil value
  or key type would be a nil dereference. (\<open>resolveFieldType\<close> never builds one.)
\<close>

fun toitTypeAnnotation :: "generator \<Rightarrow> fieldType \<Rightarrow> bool \<Rightarrow> bool \<Rightarrow> error + string" where
  "toitTypeAnnotation g (FieldType c field t vt kt) optional inComment =
     (case c of
        fieldTypeClassPrimitive \<Rightarrow> FieldTypeToToitType (field_type field) optional inComment t g
      | fieldTypeClassObject \<Rightarrow> FieldTypeToToitType (field_type field) optional inComment t g
      | fieldTypeClassList \<Rightarrow>
          (case vt of
             None \<Rightarrow> Inl (Panic ''nil fieldType'')
           | Some valueType \<Rightarrow>
               bindE (toitTypeAnnotation g valueType False True) (\<lambda>v.
                 if inComment then Inr (optionalType (''List<'' @ v @ ''>'') optional)
                 else Inr (optionalType ''List'' optional @ ''/*<'' @ v @ ''>*/'')))
      | fieldTypeClassMap \<Rightarrow>
          (case kt of
             None \<Rightarrow> Inl (Panic ''nil fieldType'')
           | Some keyType \<Rightarrow>
               bindE (toitTypeAnnotation g keyType False True) (\<lambda>k.
                 case vt of
                   None \<Rightarrow> Inl (Panic ''nil fieldType'')
                 | Some valueType \<Rightarrow>
                     bindE (toitTypeAnnotation g valueType False True) (\<lambda>v.
                       if inComment then Inr (optionalType (''Map<'' @ k @ '','' @ v @ ''>'') optional)
                       else Inr (optionalType ''Map'' optional @ ''/*<'' @ k @ '','' @ v @ ''>*/'')))))"

definition ToitTypeAnnotation :: "generator \<Rightarrow> fieldType \<Rightarrow> bool \<Rightarrow> error + string" where
  "ToitTypeAnnotation g f optional = toitTypeAnnotation g f optional False"

definition protobufTypeConst :: "FieldKind \<Rightarrow> error + string" where
  "protobufTypeConst ft =
     (case ft of
        TYPE_DOUBLE \<Rightarrow> Inr ''PROTOBUF_TYPE_DOUBLE''
      | TYPE_FLOAT \<Rightarrow> Inr ''PROTOBUF_TYPE_FLOAT''
      | TYPE_INT64 \<Rightarrow> Inr ''PROTOBUF_TYPE_INT64''
      | TYPE_SINT64 \<Rightarrow> Inr ''PROTOBUF_TYPE_SINT64''
      | TYPE_SFIXED64 \<Rightarrow> Inr ''PROTOBUF_TYPE_SFIXED64''
      | TYPE_FIXED64 \<Rightarrow> Inr ''PROTOBUF_TYPE_FIXED64''
      | TYPE_UINT64 \<Rightarrow> Inr ''PROTOBUF_TYPE_UINT64''
      | TYPE_UINT32 \<Rightarrow> Inr ''PROTOBUF_TYPE_UINT32''
      | TYPE_INT32 \<Rightarrow> Inr ''PROTOBUF_TYPE_INT32''
      | TYPE_SINT32 \<Rightarrow> Inr ''PROTOBUF_TYPE_SINT32''
      | TYPE_SFIXED32 \<Rightarrow> Inr ''PROTOBUF_TYPE_SFIXED32''
      | TYPE_FIXED32 \<Rightarrow> Inr ''PROTOBUF_TYPE_FIXED32''
      | TYPE_BOOL \<Rightarrow> Inr ''PROTOBUF_TYPE_BOOL''
      | TYPE_STRING \<Rightarrow> Inr ''PROTOBUF_TYPE_STRING''
      | TYPE_MESSAGE \<Rightarrow> Inr ''PROTOBUF_TYPE_MESSAGE''
      | TYPE_ENUM \<Rightarrow> Inr ''PROTOBUF_TYPE_ENUM''
      | TYPE_BYTES \<Rightarrow> Inr ''PROTOBUF_TYPE_BYTES''
      | TYPE_GROUP \<Rightarrow> Inl UnsupportedProtobufType)"

section \<open>Code writer\<close>

text \<open>
  The code writer (\<open>toit.Writer\<close>) and \<open>toit.ToSnakeCase\<close> belong to files of package
  \<open>toit\<close> that are not part of the sources at hand. The generator only calls the
  writer's methods: \<open>wop\<close> names each call with its arguments, and the writer \<open>w\<close> is a
  parameter, a function from a call and the writer's state to the error the call returns
  (if any) and the new state. The text in the writer's buffer is part of that state, so
  the content of a generated file is the writer's state at the end.
\<close>

datatype wop =
    SingleLineComment string
  | NewLine
  | EndLine
  | ImportAs string string
  | Variable string string string
  | StaticConst string string string
  | Const string string string
  | StartClass string string
  | EndClass
  | StartFunctionDecl string
  | StartStaticFunctionDecl string
  | EndFunctionDecl string
  | EndFunction
  | StartConstructorDecl string
  | EndConstructorDecl
  | EndConstructor
  | Parameter string string
  | ParameterWithDefault string string string
  | StartAssignment string
  | EndAssignment
  | ReturnStart
  | ReturnEnd
  | Argument string
  | NamedArgument string string
  | Literal string
  | ConditionExpression string string string
  | StartCall string
  | EndCall bool
  | StartBlock bool "string list"
  | EndBlock bool
  | StartParens
  | EndParens

type_synonym 's writer = "wop \<Rightarrow> 's \<Rightarrow> string option \<times> 's"

type_synonym 's gen = "'s \<Rightarrow> error + 's"

text \<open>
  A call of a writer method whose error is returned (\<open>call\<close>), and one whose error is
  dropped (\<open>call_ign\<close>, a call used as a statement).
\<close>

definition call :: "'s writer \<Rightarrow> wop \<Rightarrow> 's gen" where
  "call w op s = (case w op s of (None, s') \<Rightarrow> Inr s' | (Some e, s') \<Rightarrow> Inl (WriterError e))"

definition call_ign :: "'s writer \<Rightarrow> wop \<Rightarrow> 's gen" where
  "call_ign w op s = Inr (snd (w op s))"

text \<open>
  \<open>util.FirstError\<close> (util/errors.go) returns the first error among its arguments. Its
  arguments are evaluated in order, each on the writer as the one before left it, and every
  caller returns the error at once, dropping the writer: the result is the first failure
  in the order of evaluation, or the writer after all the calls.
\<close>

fun FirstError :: "'s gen list \<Rightarrow> 's gen" where
  "FirstError [] s = Inr s"
| "FirstError (f # fs) s = (case f s of Inl e \<Rightarrow> Inl e | Inr s' \<Rightarrow> FirstError fs s')"

definition thenE :: "error + 'a \<Rightarrow> ('a \<Rightarrow> 's gen) \<Rightarrow> 's gen" where
  "thenE x f s = (case x of Inl e \<Rightarrow> Inl e | Inr v \<Rightarrow> f v s)"

definition forEach :: "'a list \<Rightarrow> ('a \<Rightarrow> 's gen) \<Rightarrow> 's gen" where
  "forEach xs f = FirstError (map f xs)"

definition skip :: "'s gen" where
  "skip s = Inr s"

definition nilFieldType :: error where
  "nilFieldType = Panic ''nil fieldType''"

section \<open>Generator: serialization\<close>

definition writeSerializeNamedArguments :: "'s writer \<Rightarrow> string option \<Rightarrow> bool \<Rightarrow> 's gen" where
  "writeSerializeNamedArguments w asField oneof =
     FirstError
       [case asField of None \<Rightarrow> skip | Some a \<Rightarrow> call w (NamedArgument ''--as_field'' a),
        if oneof then call w (NamedArgument ''--oneof'' []) else skip]"

definition getSerializeFieldName ::
  "generator \<Rightarrow> string \<Rightarrow> string option \<Rightarrow> string option \<Rightarrow> string"
where
  "getSerializeFieldName g fieldName0 oneofFieldName collectionField =
     (if \<not> ConvertHooks (g_options g) then fieldName0
      else
        let fieldName = (case oneofFieldName of Some n \<Rightarrow> n | None \<Rightarrow> fieldName0)
        in case collectionField of
             Some c \<Rightarrow> ''(_serialize_'' @ c @ ''_'' @ fieldName @ '' '' @ fieldName @ '')''
           | None \<Rightarrow> ''_serialize_'' @ fieldName)"

definition writeSerializeMessage ::
  "'s writer \<Rightarrow> generator \<Rightarrow> fieldType \<Rightarrow> string \<Rightarrow> string option \<Rightarrow> string option \<Rightarrow>
     string option \<Rightarrow> 's gen"
where
  "writeSerializeMessage w g fieldType fieldName asField oneofFieldName collectionField =
     (let generic =
            FirstError
              [call w (StartCall
                 (getSerializeFieldName g fieldName oneofFieldName collectionField @ ''.serialize'')),
               call w (Argument ''w''),
               writeSerializeNamedArguments w asField (oneofFieldName \<noteq> None),
               call w (EndCall True)]
      in if CoreObjects (g_options g) then
           thenE (deref (ft_t fieldType)) (\<lambda>t.
             let fnName =
               (if Name t = coreTimestampMessage then ''_protobuf.serialize_timestamp''
                else if Name t = coreDurationMessage then ''_protobuf.serialize_duration''
                else [])
             in if fnName \<noteq> [] then
                  FirstError
                    [call w (StartCall fnName),
                     call w (Argument fieldName),
                     call w (Argument ''w''),
                     writeSerializeNamedArguments w asField (oneofFieldName \<noteq> None),
                     call w (EndCall True)]
                else generic)
         else generic)"

definition writeSerializePrimitive ::
  "'s writer \<Rightarrow> generator \<Rightarrow> string \<Rightarrow> fieldType \<Rightarrow> string option \<Rightarrow> string option \<Rightarrow>
     string option \<Rightarrow> 's gen"
where
  "writeSerializePrimitive w g fieldName fieldType asField oneofFieldName collectionField =
     thenE (protobufTypeConst (field_type (ft_field fieldType))) (\<lambda>protoType.
       FirstError
         [call w (StartCall ''w.write_primitive''),
          call w (Argument (''_protobuf.'' @ protoType)),
          call w (Argument (getSerializeFieldName g fieldName oneofFieldName collectionField)),
          writeSerializeNamedArguments w asField (oneofFieldName \<noteq> None),
          call w (EndCall True)])"

text \<open>
  \<open>writeSerializeField\<close>, \<open>writeSerializeList\<close> and \<open>writeSerializeMap\<close> call each other.
  The recursion is on the field type: the bodies of the latter two stand in the list and
  map branches of the former, and are given their own names right after.
\<close>

fun writeSerializeField ::
  "'s writer \<Rightarrow> generator \<Rightarrow> fieldType \<Rightarrow> string \<Rightarrow> string option \<Rightarrow> string option \<Rightarrow>
     string option \<Rightarrow> 's gen"
where
  "writeSerializeField w g (FieldType c f t vt kt) fieldName0 asField0 oneofFieldName collectionField =
     (let fieldName = (if fieldName0 = [] then uniqueName (field_name f) reservedFieldNames ''_''
                       else fieldName0);
          asField = (if fieldName0 = [] then Some (Itoa (field_number f)) else asField0)
      in case c of
           fieldTypeClassList \<Rightarrow>
             (case vt of
                None \<Rightarrow> (\<lambda>s. Inl nilFieldType)
              | Some valueT \<Rightarrow>
                  thenE (protobufTypeConst (field_type (ft_field valueT))) (\<lambda>protoType.
                  thenE (ToitTypeAnnotation g valueT False) (\<lambda>toitType.
                    FirstError
                      [call w (StartCall ''w.write_array''),
                       call w (Argument (''_protobuf.'' @ protoType)),
                       call w (Argument (getSerializeFieldName g fieldName oneofFieldName None)),
                       writeSerializeNamedArguments w asField (oneofFieldName \<noteq> None),
                       call w (StartBlock False [''value/'' @ toitType]),
                       writeSerializeField w g valueT ''value'' None None (Some fieldName),
                       call w (EndBlock False),
                       call w (EndCall True)])))
         | fieldTypeClassMap \<Rightarrow>
             (case kt of
                None \<Rightarrow> (\<lambda>s. Inl nilFieldType)
              | Some keyT \<Rightarrow>
                  thenE (protobufTypeConst (field_type (ft_field keyT))) (\<lambda>keyProtoType.
                  thenE (ToitTypeAnnotation g keyT False) (\<lambda>keyToitType.
                    case vt of
                      None \<Rightarrow> (\<lambda>s. Inl nilFieldType)
                    | Some valueT \<Rightarrow>
                        thenE (protobufTypeConst (field_type (ft_field valueT))) (\<lambda>valueProtoType.
                        thenE (ToitTypeAnnotation g valueT False) (\<lambda>valueToitType.
                          FirstError
                            [call w (StartCall ''w.write_map''),
                             call w (Argument (''_protobuf.'' @ keyProtoType)),
                             call w (Argument (''_protobuf.'' @ valueProtoType)),
                             call w (Argument (getSerializeFieldName g fieldName oneofFieldName None)),
                             writeSerializeNamedArguments w asField (oneofFieldName \<noteq> None),
                             call w (StartBlock True [''key/'' @ keyToitType]),
                             writeSerializeField w g keyT ''key'' None None (Some fieldName),
                             call w (EndBlock True),
                             call w (StartBlock True [''value/'' @ valueToitType]),
                             writeSerializeField w g valueT ''value'' None None (Some fieldName),
                             call w (EndBlock True),
                             call w (EndCall True)])))))
         | fieldTypeClassObject \<Rightarrow>
             writeSerializeMessage w g (FieldType c f t vt kt) fieldName asField oneofFieldName
               collectionField
         | fieldTypeClassPrimitive \<Rightarrow>
             writeSerializePrimitive w g fieldName (FieldType c f t vt kt) asField oneofFieldName
               collectionField)"

declare writeSerializeField.simps [simp del]

definition writeSerializeList ::
  "'s writer \<Rightarrow> generator \<Rightarrow> string \<Rightarrow> fieldType \<Rightarrow> string option \<Rightarrow> string option \<Rightarrow> 's gen"
where
  "writeSerializeList w g fieldName fieldType asField oneofFieldName =
     (case ft_valueType fieldType of
        None \<Rightarrow> (\<lambda>s. Inl nilFieldType)
      | Some valueT \<Rightarrow>
          thenE (protobufTypeConst (field_type (ft_field valueT))) (\<lambda>protoType.
          thenE (ToitTypeAnnotation g valueT False) (\<lambda>toitType.
            FirstError
              [call w (StartCall ''w.write_array''),
               call w (Argument (''_protobuf.'' @ protoType)),
               call w (Argument (getSerializeFieldName g fieldName oneofFieldName None)),
               writeSerializeNamedArguments w asField (oneofFieldName \<noteq> None),
               call w (StartBlock False [''value/'' @ toitType]),
               writeSerializeField w g valueT ''value'' None None (Some fieldName),
               call w (EndBlock False),
               call w (EndCall True)])))"

definition writeSerializeMap ::
  "'s writer \<Rightarrow> generator \<Rightarrow> string \<Rightarrow> fieldType \<Rightarrow> string option \<Rightarrow> string option \<Rightarrow> 's gen"
where
  "writeSerializeMap w g fieldName fieldType asField oneofFieldName =
     (case ft_keyType fieldType of
        None \<Rightarrow> (\<lambda>s. Inl nilFieldType)
      | Some keyT \<Rightarrow>
          thenE (protobufTypeConst (field_type (ft_field keyT))) (\<lambda>keyProtoType.
          thenE (ToitTypeAnnotation g keyT False) (\<lambda>keyToitType.
            case ft_valueType fieldType of
              None \<Rightarrow> (\<lambda>s. Inl nilFieldType)
            | Some valueT \<Rightarrow>
                thenE (protobufTypeConst (field_type (ft_field valueT))) (\<lambda>valueProtoType.
                thenE (ToitTypeAnnotation g valueT False) (\<lambda>valueToitType.
                  FirstError
                    [call w (StartCall ''w.write_map''),
                     call w (Argument (''_protobuf.'' @ keyProtoType)),
                     call w (Argument (''_protobuf.'' @ valueProtoType)),
                     call w (Argument (getSerializeFieldName g fieldName oneofFieldName None)),
                     writeSerializeNamedArguments w asField (oneofFieldName \<noteq> None),
                     call w (StartBlock True [''key/'' @ keyToitType]),
                     writeSerializeField w g keyT ''key'' None None (Some fieldName),
                     call w (EndBlock True),
                     call w (StartBlock True [''value/'' @ valueToitType]),
                     writeSerializeField w g valueT ''value'' None None (Some fieldName),
                     call w (EndBlock True),
                     call w (EndCall True)])))))"

definition writeSerializeOneofField ::
  "'s writer \<Rightarrow> generator \<Rightarrow> fieldType \<Rightarrow> oneofType list \<Rightarrow> 's gen"
where
  "writeSerializeOneofField w g fieldType oneofTypes =
     thenE (index oneofTypes (case field_oneof_index (ft_field fieldType) of None \<Rightarrow> 0 | Some i \<Rightarrow> i))
       (\<lambda>oneof.
     let fieldConstant = ToUpper (go_get (ot_CaseFields oneof) (field_number (ft_field fieldType)))
     in thenE (FieldName fieldType oneofTypes) (\<lambda>fieldName.
          FirstError
            [call w (StartCall ''if''),
             call w (Argument (ot_CaseName oneof @ '' == '' @ fieldConstant)),
             call w (StartBlock False []),
             writeSerializeField w g fieldType (ot_FieldName oneof) (Some fieldConstant)
               (Some fieldName) None,
             call w (EndBlock False),
             call w (EndCall True)]))"

definition writeSerializeMethod ::
  "'s writer \<Rightarrow> generator \<Rightarrow> fieldType list \<Rightarrow> oneofType list \<Rightarrow> 's gen"
where
  "writeSerializeMethod w g flds oneofTypes =
     FirstError
       [call_ign w (StartFunctionDecl ''serialize''),
        call_ign w (Parameter ''w'' ''_protobuf.Writer''),
        call_ign w (ParameterWithDefault ''--as_field'' ''int?'' ''null''),
        call_ign w (ParameterWithDefault ''--oneof'' ''bool'' ''false''),
        call_ign w (EndFunctionDecl ''none''),
        call_ign w (StartCall ''w.write_message_header''),
        call_ign w (Argument ''this''),
        call_ign w (Argument ''--as_field=as_field''),
        call_ign w (Argument ''--oneof=oneof''),
        call_ign w (EndCall True),
        if flds = [] then call_ign w (Literal ''1'')
        else forEach flds (\<lambda>fieldType.
          if field_oneof_index (ft_field fieldType) \<noteq> None
          then writeSerializeOneofField w g fieldType oneofTypes
          else writeSerializeField w g fieldType [] None None None),
        call_ign w (EndFunction)]"

section \<open>Generator: deserialization\<close>

fun writeReadFieldType ::
  "'s writer \<Rightarrow> generator \<Rightarrow> string \<Rightarrow> string \<Rightarrow> fieldType \<Rightarrow> 's gen"
where
  "writeReadFieldType w g objectName fieldName (FieldType c f t vt kt) =
     (case c of
        fieldTypeClassList \<Rightarrow>
          (case vt of
             None \<Rightarrow> (\<lambda>s. Inl nilFieldType)
           | Some valueT \<Rightarrow>
               thenE (protobufTypeConst (field_type (ft_field valueT))) (\<lambda>protoType.
                 FirstError
                   [call w (StartCall ''r.read_array''),
                    call w (Argument (''_protobuf.'' @ protoType)),
                    call w (Argument fieldName),
                    call w (StartBlock False []),
                    writeReadFieldType w g objectName (fieldName @ ''_value'') valueT,
                    call w (EndBlock False),
                    call w (EndCall True)]))
      | fieldTypeClassMap \<Rightarrow>
          FirstError
            [call w (StartCall ''r.read_map''),
             call w (Argument fieldName),
             call w (StartBlock True []),
             (case kt of
                None \<Rightarrow> (\<lambda>s. Inl nilFieldType)
              | Some keyT \<Rightarrow> writeReadFieldType w g objectName (fieldName @ ''_key'') keyT),
             call w (EndBlock True),
             call w (StartBlock True []),
             (case vt of
                None \<Rightarrow> (\<lambda>s. Inl nilFieldType)
              | Some valueT \<Rightarrow> writeReadFieldType w g objectName (fieldName @ ''_value'') valueT),
             call w (EndBlock True),
             call w (EndCall True)]
      | fieldTypeClassObject \<Rightarrow>
          thenE (deref t) (\<lambda>typ.
            let fnName =
              (if CoreObjects (g_options g) then
                 (if Name typ = coreTimestampMessage then ''_protobuf.deserialize_timestamp''
                  else if Name typ = coreDurationMessage then ''_protobuf.deserialize_duration''
                  else [])
               else [])
            in if fnName \<noteq> [] then
                 FirstError
                   [call w (StartCall fnName),
                    call w (Argument ''r''),
                    call w (EndCall True)]
               else
                 thenE (importAliasOf g typ) (\<lambda>importAlias.
                   let toitClass = ToitType typ importAlias
                   in if ConvertHooks (g_options g) then
                        FirstError
                          [call w (StartCall (toitClass @ ''.deserialize_into'')),
                           call w (Argument ''r''),
                           call w (Argument (objectName @ ''._initialize_'' @ fieldName)),
                           call w (EndCall True)]
                      else
                        FirstError
                          [call w (StartCall (toitClass @ ''.deserialize'')),
                           call w (Argument ''r''),
                           call w (EndCall True)]))
      | fieldTypeClassPrimitive \<Rightarrow>
          thenE (protobufTypeConst (field_type f)) (\<lambda>protoType.
            FirstError
              [call w (StartCall ''r.read_primitive''),
               call w (Argument (''_protobuf.'' @ protoType)),
               call w (EndCall True)]))"

declare writeReadFieldType.simps [simp del]

definition writeReadFieldAssignment ::
  "'s writer \<Rightarrow> generator \<Rightarrow> string \<Rightarrow> fieldType \<Rightarrow> oneofType list \<Rightarrow> 's gen"
where
  "writeReadFieldAssignment w g objectName fieldType oneofTypes =
     thenE (FieldName fieldType oneofTypes) (\<lambda>fieldName.
       if ConvertHooks (g_options g) \<and> ft_class fieldType \<noteq> fieldTypeClassObject then
         FirstError
           [call w (StartCall (objectName @ ''._deserialize_'' @ fieldName)),
            call w NewLine,
            writeReadFieldType w g objectName fieldName fieldType,
            call w (EndCall True)]
       else
         let assignTo = (if objectName \<noteq> [] then objectName @ ''.'' @ fieldName else fieldName)
         in FirstError
              [call w (StartAssignment assignTo),
               call w (Argument []),
               writeReadFieldType w g objectName fieldName fieldType,
               call w EndAssignment])"

definition writeReadFieldCall ::
  "'s writer \<Rightarrow> generator \<Rightarrow> string \<Rightarrow> fieldType \<Rightarrow> oneofType list \<Rightarrow> 's gen"
where
  "writeReadFieldCall w g objectName fieldType oneofTypes =
     FirstError
       [call_ign w (StartCall ''r.read_field''),
        call_ign w (Argument (Itoa (field_number (ft_field fieldType)))),
        call_ign w (StartBlock False []),
        writeReadFieldAssignment w g objectName fieldType oneofTypes,
        call_ign w (EndBlock False),
        call_ign w (EndCall True)]"

definition writeDeserializeBody ::
  "'s writer \<Rightarrow> generator \<Rightarrow> string \<Rightarrow> fieldType list \<Rightarrow> oneofType list \<Rightarrow> 's gen"
where
  "writeDeserializeBody w g objectName flds oneOfTypes =
     FirstError
       [call_ign w (StartCall ''r.read_message''),
        call_ign w (StartBlock False []),
        if flds = [] then call_ign w (Literal ''1'')
        else forEach flds (\<lambda>fieldType. writeReadFieldCall w g objectName fieldType oneOfTypes),
        call_ign w (EndBlock False),
        call_ign w (EndCall True)]"

definition writeDeserializeConstructor ::
  "'s writer \<Rightarrow> generator \<Rightarrow> fieldType list \<Rightarrow> oneofType list \<Rightarrow> 's gen"
where
  "writeDeserializeConstructor w g flds oneofTypes =
     FirstError
       [call w (StartConstructorDecl ''deserialize''),
        call w (Parameter ''r'' ''_protobuf.Reader''),
        call w EndConstructorDecl,
        if \<not> ConvertHooks (g_options g) then writeDeserializeBody w g [] flds oneofTypes
        else FirstError
               [call w (StartCall ''deserialize_into''),
                call w (Argument ''r''),
                call w (Argument ''this''),
                call w (EndCall True)],
        call w EndConstructor]"

definition writeDeserializeIntoMethod ::
  "'s writer \<Rightarrow> generator \<Rightarrow> string \<Rightarrow> fieldType list \<Rightarrow> oneofType list \<Rightarrow> 's gen"
where
  "writeDeserializeIntoMethod w g objectType flds oneofTypes =
     FirstError
       [call w (StartStaticFunctionDecl ''deserialize_into''),
        call w (Parameter ''r'' ''_protobuf.Reader''),
        call w (Parameter ''obj'' objectType),
        call w (EndFunctionDecl objectType),
        writeDeserializeBody w g ''obj'' flds oneofTypes,
        call w ReturnStart,
        call w (Argument ''obj''),
        call w ReturnEnd,
        call w EndFunction]"

section \<open>Generator: convert hooks\<close>

definition writeInitializeObjectMethod ::
  "'s writer \<Rightarrow> generator \<Rightarrow> fieldType \<Rightarrow> string \<Rightarrow> 's gen"
where
  "writeInitializeObjectMethod w g fieldType methodSuffix =
     thenE (ToitTypeAnnotation g fieldType False) (\<lambda>t.
     thenE (DefaultValue g fieldType) (\<lambda>defaultValue.
       FirstError
         [call w (StartFunctionDecl (''_initialize_'' @ methodSuffix)),
          call w (EndFunctionDecl t),
          call w ReturnStart,
          call w (Argument defaultValue),
          call w ReturnEnd,
          call w EndFunction]))"

definition writeDeserializeFieldMethod ::
  "'s writer \<Rightarrow> generator \<Rightarrow> fieldType \<Rightarrow> string \<Rightarrow> bool \<Rightarrow> oneofType list \<Rightarrow> 's gen"
where
  "writeDeserializeFieldMethod w g fieldType methodSuffix inCollection oneofTypes =
     thenE (ToitTypeAnnotation g fieldType False) (\<lambda>t.
     thenE (FieldName fieldType oneofTypes) (\<lambda>fieldName.
       if inCollection then
         FirstError
           [call w (StartFunctionDecl (''_deserialize_'' @ methodSuffix)),
            call w (Parameter ''in'' t),
            call w (EndFunctionDecl ''any''),
            call w ReturnStart,
            call w (Argument ''in''),
            call w ReturnEnd,
            call w EndFunction]
       else
         FirstError
           [call w (StartFunctionDecl (''_deserialize_'' @ methodSuffix)),
            call w (Parameter ''in'' t),
            call w (EndFunctionDecl []),
            call w (StartAssignment fieldName),
            call w (Argument ''in''),
            call w EndAssignment,
            call w EndFunction]))"

definition writeSerializeFieldMethod ::
  "'s writer \<Rightarrow> generator \<Rightarrow> fieldType \<Rightarrow> string \<Rightarrow> bool \<Rightarrow> oneofType list \<Rightarrow> 's gen"
where
  "writeSerializeFieldMethod w g fieldType methodSuffix inCollection oneofTypes =
     thenE (ToitTypeAnnotation g fieldType False) (\<lambda>t.
     thenE (FieldName fieldType oneofTypes) (\<lambda>fieldName.
       if inCollection then
         FirstError
           [call w (StartFunctionDecl (''_serialize_'' @ methodSuffix)),
            call w (Parameter ''in'' ''any''),
            call w (EndFunctionDecl t),
            call w ReturnStart,
            call w (Argument ''in''),
            call w ReturnEnd,
            call w EndFunction]
       else
         FirstError
           [call w (StartFunctionDecl (''_serialize_'' @ methodSuffix)),
            call w (EndFunctionDecl t),
            call w ReturnStart,
            call w (Argument fieldName),
            call w ReturnEnd,
            call w EndFunction]))"

fun writeFieldConvertHooks ::
  "'s writer \<Rightarrow> generator \<Rightarrow> fieldType \<Rightarrow> string \<Rightarrow> bool \<Rightarrow> oneofType list \<Rightarrow> 's gen"
where
  "writeFieldConvertHooks w g (FieldType c f t vt kt) methodSuffix inCollection oneofTypes =
     (case c of
        fieldTypeClassList \<Rightarrow>
          FirstError
            [writeDeserializeFieldMethod w g (FieldType c f t vt kt) methodSuffix False oneofTypes,
             writeSerializeFieldMethod w g (FieldType c f t vt kt) methodSuffix False oneofTypes,
             (case vt of
                None \<Rightarrow> (\<lambda>s. Inl nilFieldType)
              | Some valueT \<Rightarrow>
                  writeFieldConvertHooks w g valueT (methodSuffix @ ''_value'') True oneofTypes)]
      | fieldTypeClassMap \<Rightarrow>
          FirstError
            [writeDeserializeFieldMethod w g (FieldType c f t vt kt) methodSuffix False oneofTypes,
             writeSerializeFieldMethod w g (FieldType c f t vt kt) methodSuffix False oneofTypes,
             (case kt of
                None \<Rightarrow> (\<lambda>s. Inl nilFieldType)
              | Some keyT \<Rightarrow>
                  writeFieldConvertHooks w g keyT (methodSuffix @ ''_key'') True oneofTypes),
             (case vt of
                None \<Rightarrow> (\<lambda>s. Inl nilFieldType)
              | Some valueT \<Rightarrow>
                  writeFieldConvertHooks w g valueT (methodSuffix @ ''_value'') True oneofTypes)]
      | fieldTypeClassObject \<Rightarrow>
          FirstError
            [writeInitializeObjectMethod w g (FieldType c f t vt kt) methodSuffix,
             writeSerializeFieldMethod w g (FieldType c f t vt kt) methodSuffix inCollection oneofTypes]
      | fieldTypeClassPrimitive \<Rightarrow>
          FirstError
            [writeDeserializeFieldMethod w g (FieldType c f t vt kt) methodSuffix inCollection oneofTypes,
             writeSerializeFieldMethod w g (FieldType c f t vt kt) methodSuffix inCollection oneofTypes])"

declare writeFieldConvertHooks.simps [simp del]

definition writeClassConvertHooks ::
  "'s writer \<Rightarrow> generator \<Rightarrow> fieldType list \<Rightarrow> oneofType list \<Rightarrow> 's gen"
where
  "writeClassConvertHooks w g flds oneofTypes =
     forEach flds (\<lambda>field.
       thenE (FieldName field oneofTypes) (\<lambda>fieldName.
         writeFieldConvertHooks w g field fieldName False oneofTypes))"

section \<open>Generator: constructors\<close>

text \<open>
  The first loop of \<open>writeDefaultConstructor\<close> writes one parameter per field and collects
  the field names for the second loop.
\<close>

fun constructorParameters ::
  "'s writer \<Rightarrow> generator \<Rightarrow> oneofType list \<Rightarrow> fieldType list \<Rightarrow> string list \<Rightarrow> 's \<Rightarrow>
     error + (string list \<times> 's)"
where
  "constructorParameters w g oneofTypes [] fieldNames s = Inr (fieldNames, s)"
| "constructorParameters w g oneofTypes (fieldType # flds) fieldNames s =
     (case ToitTypeAnnotation g fieldType True of
        Inl e \<Rightarrow> Inl e
      | Inr t \<Rightarrow>
          (case FieldName fieldType oneofTypes of
             Inl e \<Rightarrow> Inl e
           | Inr fieldName \<Rightarrow>
               (case FirstError
                       [call w EndLine,
                        call w (ParameterWithDefault (''--'' @ fieldName) t ''null'')] s of
                  Inl e \<Rightarrow> Inl e
                | Inr s' \<Rightarrow>
                    constructorParameters w g oneofTypes flds (fieldNames @ [fieldName]) s')))"

definition writeDefaultConstructor ::
  "'s writer \<Rightarrow> generator \<Rightarrow> fieldType list \<Rightarrow> oneofType list \<Rightarrow> 's gen"
where
  "writeDefaultConstructor w g flds oneofTypes =
     (if \<not> ConstructorInitializers (g_options g) then
        FirstError
          [call w (StartConstructorDecl []),
           call w EndConstructorDecl,
           call w EndConstructor]
      else
        (\<lambda>s0.
          case call w (StartConstructorDecl []) s0 of
            Inl e \<Rightarrow> Inl e
          | Inr s1 \<Rightarrow>
              (case constructorParameters w g oneofTypes flds [] s1 of
                 Inl e \<Rightarrow> Inl e
               | Inr (fieldNames, s2) \<Rightarrow>
                   FirstError
                     [call w EndConstructorDecl,
                      forEach fieldNames (\<lambda>fieldName.
                        FirstError
                          [call w (StartCall ''if''),
                           call w (Argument (fieldName @ '' != null'')),
                           call w (StartBlock False []),
                           call w (StartAssignment (''this.'' @ fieldName)),
                           call w (Argument fieldName),
                           call w EndAssignment,
                           call w (EndBlock False),
                           call w (EndCall True)]),
                      call w EndConstructor] s2)))"

section \<open>Generator: presence count and size\<close>

text \<open>
  \<open>writeNumFieldsSetMethod\<close> counts the summands it has written in \<open>i\<close>, to put a
  \<open>+\<close> before every summand but the first.
\<close>

definition plusUnlessFirst :: "'s writer \<Rightarrow> nat \<Rightarrow> 's gen" where
  "plusUnlessFirst w i = (if i \<noteq> 0 then call_ign w (Literal ''+ '') else skip)"

fun numFieldsSetOneofs :: "'s writer \<Rightarrow> oneofType list \<Rightarrow> nat \<Rightarrow> 's \<Rightarrow> error + (nat \<times> 's)" where
  "numFieldsSetOneofs w [] i s = Inr (i, s)"
| "numFieldsSetOneofs w (oneof # oneofTypes) i s =
     (case FirstError
             [plusUnlessFirst w i,
              call_ign w (ConditionExpression (ot_CaseName oneof @ '' == null'') ''0'' ''1''),
              call_ign w EndLine] s of
        Inl e \<Rightarrow> Inl e
      | Inr s' \<Rightarrow> numFieldsSetOneofs w oneofTypes (i + 1) s')"

definition numFieldsSetCondition :: "generator \<Rightarrow> fieldType \<Rightarrow> string \<Rightarrow> error + string" where
  "numFieldsSetCondition g fieldType fieldName =
     (case ft_class fieldType of
        fieldTypeClassList \<Rightarrow> Inr (fieldName @ ''.is_empty'')
      | fieldTypeClassMap \<Rightarrow> Inr (fieldName @ ''.is_empty'')
      | fieldTypeClassObject \<Rightarrow>
          (if CoreObjects (g_options g) then
             bindE (deref (ft_t fieldType)) (\<lambda>t.
               if Name t = coreDurationMessage then Inr (fieldName @ ''.is_zero'')
               else if Name t = coreTimestampMessage
                 then Inr (''(_protobuf.time_is_zero_epoch '' @ fieldName @ '')'')
               else Inr (fieldName @ ''.is_empty''))
           else Inr (fieldName @ ''.is_empty''))
      | fieldTypeClassPrimitive \<Rightarrow>
          (if field_type (ft_field fieldType) = TYPE_STRING \<or>
              field_type (ft_field fieldType) = TYPE_BYTES
           then Inr (fieldName @ ''.is_empty'')
           else bindE (DefaultValue g fieldType) (\<lambda>defaultValue.
                  Inr (fieldName @ '' == '' @ defaultValue))))"

fun numFieldsSetFields ::
  "'s writer \<Rightarrow> generator \<Rightarrow> fieldType list \<Rightarrow> nat \<Rightarrow> 's \<Rightarrow> error + (nat \<times> 's)"
where
  "numFieldsSetFields w g [] i s = Inr (i, s)"
| "numFieldsSetFields w g (fieldType # flds) i s =
     (if field_oneof_index (ft_field fieldType) \<noteq> None then numFieldsSetFields w g flds i s
      else
        let fieldName0 = uniqueName (field_name (ft_field fieldType)) reservedFieldNames ''_'';
            fieldName = (if ConvertHooks (g_options g) then ''_serialize_'' @ fieldName0
                         else fieldName0)
        in case numFieldsSetCondition g fieldType fieldName of
             Inl e \<Rightarrow> Inl e
           | Inr condition \<Rightarrow>
               (case FirstError
                       [plusUnlessFirst w i,
                        call_ign w (ConditionExpression condition ''0'' ''1''),
                        call_ign w EndLine] s of
                  Inl e \<Rightarrow> Inl e
                | Inr s' \<Rightarrow> numFieldsSetFields w g flds (i + 1) s'))"

definition writeNumFieldsSetMethod ::
  "'s writer \<Rightarrow> generator \<Rightarrow> fieldType list \<Rightarrow> oneofType list \<Rightarrow> 's gen"
where
  "writeNumFieldsSetMethod w g flds oneofTypes =
     FirstError
       [call_ign w (StartFunctionDecl ''num_fields_set''),
        call_ign w (EndFunctionDecl ''int''),
        if flds = [] then
          FirstError
            [call w ReturnStart,
             call w (Argument ''0''),
             call w ReturnEnd,
             call w EndFunction]
        else
          FirstError
            [call_ign w ReturnStart,
             call_ign w (Argument []),
             (\<lambda>s. case numFieldsSetOneofs w oneofTypes 0 s of
                     Inl e \<Rightarrow> Inl e
                   | Inr (i, s1) \<Rightarrow>
                       (case numFieldsSetFields w g flds i s1 of
                          Inl e \<Rightarrow> Inl e
                        | Inr (j, s2) \<Rightarrow> Inr s2)),
             call_ign w ReturnEnd,
             call_ign w EndFunction]]"

definition sized :: "'s writer \<Rightarrow> string \<Rightarrow> string list \<Rightarrow> int \<Rightarrow> 's gen" where
  "sized w fn args n =
     FirstError
       ([call w StartParens, call w (StartCall fn)] @
        map (\<lambda>a. call w (Argument a)) args @
        [call w (NamedArgument ''--as_field'' (Itoa n)),
         call w EndParens,
         call w (EndCall False)])"

definition writeProtobufSizeField ::
  "'s writer \<Rightarrow> generator \<Rightarrow> fieldType \<Rightarrow> oneofType list \<Rightarrow> 's gen"
where
  "writeProtobufSizeField w g fieldType oneofTypes =
     thenE (FieldName fieldType oneofTypes) (\<lambda>fieldName0.
       let fieldName = (if ConvertHooks (g_options g) then ''_serialize_'' @ fieldName0
                        else fieldName0);
           n = field_number (ft_field fieldType)
       in case ft_class fieldType of
            fieldTypeClassList \<Rightarrow>
              (case ft_valueType fieldType of
                 None \<Rightarrow> (\<lambda>s. Inl nilFieldType)
               | Some valueT \<Rightarrow>
                   thenE (protobufTypeConst (field_type (ft_field valueT))) (\<lambda>protoType.
                     sized w ''_protobuf.size_array'' [''_protobuf.'' @ protoType, fieldName] n))
          | fieldTypeClassMap \<Rightarrow>
              (case ft_keyType fieldType of
                 None \<Rightarrow> (\<lambda>s. Inl nilFieldType)
               | Some keyT \<Rightarrow>
                   thenE (protobufTypeConst (field_type (ft_field keyT))) (\<lambda>keyProtoType.
                     case ft_valueType fieldType of
                       None \<Rightarrow> (\<lambda>s. Inl nilFieldType)
                     | Some valueT \<Rightarrow>
                         thenE (protobufTypeConst (field_type (ft_field valueT))) (\<lambda>valueProtoType.
                           sized w ''_protobuf.size_map''
                             [''_protobuf.'' @ keyProtoType, ''_protobuf.'' @ valueProtoType,
                              fieldName] n)))
          | fieldTypeClassObject \<Rightarrow>
              (let generic =
                     sized w ''_protobuf.size_embedded_message''
                       [''('' @ fieldName @ ''.protobuf_size)''] n
               in if CoreObjects (g_options g) then
                    thenE (deref (ft_t fieldType)) (\<lambda>t.
                      if Name t = coreDurationMessage
                        then sized w ''_protobuf.size_duration'' [fieldName] n
                      else if Name t = coreTimestampMessage
                        then sized w ''_protobuf.size_timestamp'' [fieldName] n
                      else generic)
                  else generic)
          | fieldTypeClassPrimitive \<Rightarrow>
              thenE (protobufTypeConst (field_type (ft_field fieldType))) (\<lambda>protoType.
                sized w ''_protobuf.size_primitive'' [''_protobuf.'' @ protoType, fieldName] n))"

fun protobufSizeFields ::
  "'s writer \<Rightarrow> generator \<Rightarrow> oneofType list \<Rightarrow> fieldType list \<Rightarrow> nat \<Rightarrow> 's gen"
where
  "protobufSizeFields w g oneofTypes [] i s = Inr s"
| "protobufSizeFields w g oneofTypes (fieldType # flds) i s =
     (case FirstError
             [if i \<noteq> 0 then FirstError [call_ign w EndLine, call_ign w (Literal ''+ '')] else skip,
              case field_oneof_index (ft_field fieldType) of
                Some idx \<Rightarrow>
                  thenE (index oneofTypes idx) (\<lambda>oneof.
                    let fieldConstant =
                          ToUpper (go_get (ot_CaseFields oneof) (field_number (ft_field fieldType)))
                    in FirstError
                         [call w StartParens,
                          call w (Literal (ot_CaseName oneof @ '' == '' @ fieldConstant)),
                          call w (Literal '' ? ''),
                          writeProtobufSizeField w g fieldType oneofTypes,
                          call w (Literal '' : ''),
                          call w (Literal ''0''),
                          call w EndParens])
              | None \<Rightarrow> writeProtobufSizeField w g fieldType oneofTypes,
              call_ign w EndLine] s of
        Inl e \<Rightarrow> Inl e
      | Inr s' \<Rightarrow> protobufSizeFields w g oneofTypes flds (i + 1) s')"

definition writeProtobufSizeMethod ::
  "'s writer \<Rightarrow> generator \<Rightarrow> fieldType list \<Rightarrow> oneofType list \<Rightarrow> 's gen"
where
  "writeProtobufSizeMethod w g flds oneofTypes =
     FirstError
       [call_ign w (StartFunctionDecl ''protobuf_size''),
        call_ign w (EndFunctionDecl ''int''),
        if flds = [] then
          FirstError
            [call w ReturnStart,
             call w (Argument ''0''),
             call w ReturnEnd,
             call w EndFunction]
        else
          FirstError
            [call_ign w ReturnStart,
             call_ign w (Argument []),
             protobufSizeFields w g oneofTypes flds 0,
             call_ign w ReturnEnd,
             call_ign w EndFunction]]"

section \<open>Generator: oneofs, enums and messages\<close>

text \<open>
  \<open>writeOneof\<close> selects the fields of a oneof by comparing the declaration at the field's
  oneof index with the given declaration. The declarations of a message are distinct
  objects, so the two are the same exactly when the field's index is the index \<open>i\<close> of the
  given declaration, which the model passes along; the indexing panics out of range.
\<close>

definition inOneof :: "DescriptorProto \<Rightarrow> int \<Rightarrow> FieldDescriptorProto \<Rightarrow> error + bool" where
  "inOneof msg i field =
     (case field_oneof_index field of
        None \<Rightarrow> Inr False
      | Some idx \<Rightarrow> bindE (index (msg_oneof_decl msg) idx) (\<lambda>_. Inr (idx = i)))"

fun oneofConstants ::
  "'s writer \<Rightarrow> DescriptorProto \<Rightarrow> int \<Rightarrow> string \<Rightarrow> FieldDescriptorProto list \<Rightarrow>
     (int \<times> string) list \<Rightarrow> 's \<Rightarrow> error + ((int \<times> string) list \<times> 's)"
where
  "oneofConstants w msg i resFieldName [] caseFields s = Inr (caseFields, s)"
| "oneofConstants w msg i resFieldName (field # flds) caseFields s =
     (case inOneof msg i field of
        Inl e \<Rightarrow> Inl e
      | Inr member \<Rightarrow>
          if \<not> member then oneofConstants w msg i resFieldName flds caseFields s
          else
            let fieldName = uniqueName (resFieldName @ field_name field) reservedFieldNames ''_''
            in case call w (StaticConst (ToUpper fieldName) ''int'' (Itoa (field_number field))) s of
                 Inl e \<Rightarrow> Inl e
               | Inr s' \<Rightarrow>
                   oneofConstants w msg i resFieldName flds
                     (go_put (field_number field) fieldName caseFields) s')"

fun oneofAccessors ::
  "'s writer \<Rightarrow> generator \<Rightarrow> DescriptorProto \<Rightarrow> int \<Rightarrow> OneofDescriptorProto \<Rightarrow> oneofType \<Rightarrow>
     FieldDescriptorProto list \<Rightarrow> 's gen"
where
  "oneofAccessors w g msg i oneof res [] s = Inr s"
| "oneofAccessors w g msg i oneof res (field # flds) s =
     (case inOneof msg i field of
        Inl e \<Rightarrow> Inl e
      | Inr member \<Rightarrow>
          if \<not> member then oneofAccessors w g msg i oneof res flds s
          else
            (case resolveFieldType g field False of
               Inl e \<Rightarrow> Inl e
             | Inr fieldType \<Rightarrow>
                 let fieldName = go_get (ot_CaseFields res) (field_number field)
                 in case ToitTypeAnnotation g fieldType False of
                      Inl e \<Rightarrow> Inl e
                    | Inr t \<Rightarrow>
                        (case FirstError
                                [call w (StartFunctionDecl fieldName),
                                 call w (EndFunctionDecl t),
                                 call w ReturnStart,
                                 call w (Argument (ot_FieldName res)),
                                 call w ReturnEnd,
                                 call w EndFunction,
                                 call w (StartFunctionDecl (fieldName @ ''='')),
                                 call w (Parameter (oneof_name oneof) t),
                                 call w (EndFunctionDecl ''none''),
                                 call w (StartAssignment (ot_FieldName res)),
                                 call w (Argument (oneof_name oneof)),
                                 call w EndAssignment,
                                 call w (StartAssignment (ot_CaseName res)),
                                 call w (Argument (ToUpper fieldName)),
                                 call w EndAssignment,
                                 call w EndFunction] s of
                           Inl e \<Rightarrow> Inl e
                         | Inr s' \<Rightarrow> oneofAccessors w g msg i oneof res flds s')))"

definition writeOneof ::
  "'s writer \<Rightarrow> generator \<Rightarrow> DescriptorProto \<Rightarrow> int \<Rightarrow> OneofDescriptorProto \<Rightarrow> string list \<Rightarrow>
     's \<Rightarrow> error + (oneofType \<times> 's)"
where
  "writeOneof w g msg i oneof typePath s =
     (let caseGetter = uniqueName (oneof_name oneof @ ''_oneof_case'') reservedFieldNames ''_'';
          res0 = \<lparr> ot_FieldName = uniqueName (oneof_name oneof @ ''_'') reservedFieldNames ''_'',
                   ot_CaseName = caseGetter @ ''_'',
                   ot_CaseGetter = caseGetter,
                   ot_ClearFunction =
                     uniqueName (oneof_name oneof @ ''_oneof_clear'') reservedFieldNames ''_'',
                   ot_CaseFields = [],
                   ot_Descriptor = oneof \<rparr>;
          tn = typeName (oneof_name oneof) typePath
      in case FirstError
                [FirstError
                   [call w (SingleLineComment (''ONEOF START: '' @ tn)),
                    call w (Variable (ot_FieldName res0) [] ''null''),
                    call w (Variable (ot_CaseName res0) ''int?'' ''null''),
                    call w NewLine],
                 FirstError
                   [call w (StartFunctionDecl (ot_ClearFunction res0)),
                    call w (EndFunctionDecl ''none''),
                    call w (StartAssignment (ot_FieldName res0)),
                    call w (Argument ''null''),
                    call w EndAssignment,
                    call w (StartAssignment (ot_CaseName res0)),
                    call w (Argument ''null''),
                    call w EndAssignment,
                    call w EndFunction]] s of
           Inl e \<Rightarrow> Inl e
         | Inr s1 \<Rightarrow>
             (case oneofConstants w msg i (ot_FieldName res0) (msg_field msg) [] s1 of
                Inl e \<Rightarrow> Inl e
              | Inr (caseFields, s2) \<Rightarrow>
                  let res = res0\<lparr> ot_CaseFields := caseFields \<rparr>
                  in case FirstError
                            [FirstError
                               [call w NewLine,
                                call w (StartFunctionDecl (ot_CaseGetter res)),
                                call w (EndFunctionDecl ''int?''),
                                call w ReturnStart,
                                call w (Argument (ot_CaseName res)),
                                call w ReturnEnd,
                                call w EndFunction],
                             oneofAccessors w g msg i oneof res (msg_field msg),
                             call w (SingleLineComment (''ONEOF END: '' @ tn))] s2 of
                       Inl e \<Rightarrow> Inl e
                     | Inr s3 \<Rightarrow> Inr (res, s3)))"

definition writeEnum :: "'s writer \<Rightarrow> generator \<Rightarrow> EnumDescriptorProto \<Rightarrow> string list \<Rightarrow> 's gen" where
  "writeEnum w g enum typePath =
     (let tn = typeName (enum_name enum) typePath
      in case lookupType g tn of
           None \<Rightarrow> (\<lambda>s. Inl (LocalEnumNotFound tn))
         | Some typ \<Rightarrow>
             let className = ToitType typ []
             in FirstError
                  [call_ign w (SingleLineComment (''ENUM START: '' @ className)),
                   forEach (enum_value enum) (\<lambda>v.
                     call_ign w (Const (toitClassName (value_name v) [className])
                       (''int/*enum<'' @ className @ ''>*/'') (Itoa (value_number v)))),
                   call_ign w (SingleLineComment (''ENUM END: '' @ tn)),
                   call_ign w NewLine])"

text \<open>
  The names of a oneof are checked against the names defined so far, one case field after
  the other in the order in which \<open>range\<close> visits the map \<open>CaseFields\<close>.
\<close>

fun checkCaseFields :: "string list \<Rightarrow> StringSet \<Rightarrow> error + StringSet" where
  "checkCaseFields [] definedNames = Inr definedNames"
| "checkCaseFields (fieldName # rest) definedNames =
     (let constant = ToUpper fieldName;
          setter = fieldName @ ''=''
      in if Contains definedNames constant then Inl (NameClash ''oneof constant'' constant)
         else if Contains definedNames fieldName then Inl (NameClash ''oneof getter'' fieldName)
         else if Contains definedNames setter then Inl (NameClash ''oneof setter'' setter)
         else checkCaseFields rest (Add definedNames [constant, fieldName, setter]))"

text \<open>
  The record \<open>runtime\<close> collects what a run takes from outside: the writer and its
  initial state, the snake-case function, and the two orders in which Go's \<open>range\<close>
  visits the maps the generator ranges over.
\<close>

record 's runtime =
  rt_NewWriter :: 's
  rt_write :: "'s writer"
  rt_ToSnakeCase :: "string \<Rightarrow> string"
  rt_rangeLibraries :: "gomap \<Rightarrow> gomap"
  rt_rangeCaseFields :: "(int \<times> string) list \<Rightarrow> (int \<times> string) list"

fun writeOneofs ::
  "'s runtime \<Rightarrow> generator \<Rightarrow> DescriptorProto \<Rightarrow> string list \<Rightarrow> OneofDescriptorProto list \<Rightarrow> int \<Rightarrow>
     oneofType list \<Rightarrow> StringSet \<Rightarrow> 's \<Rightarrow> error + ((oneofType list \<times> StringSet) \<times> 's)"
where
  "writeOneofs rt g msg recTypePath [] i oneofTypes definedNames s =
     Inr ((oneofTypes, definedNames), s)"
| "writeOneofs rt g msg recTypePath (oneof # rest) i oneofTypes definedNames s =
     (case writeOneof (rt_write rt) g msg i oneof recTypePath s of
        Inl e \<Rightarrow> Inl e
      | Inr (oneofType, s') \<Rightarrow>
          if Contains definedNames (ot_FieldName oneofType)
            then Inl (NameClash ''oneof field'' (ot_FieldName oneofType))
          else if Contains definedNames (ot_CaseName oneofType)
            then Inl (NameClash ''oneof case field'' (ot_CaseName oneofType))
          else if Contains definedNames (ot_CaseGetter oneofType)
            then Inl (NameClash ''oneof case getter'' (ot_CaseGetter oneofType))
          else
            (case checkCaseFields
                    (map snd (rt_rangeCaseFields rt (ot_CaseFields oneofType)))
                    (Add definedNames
                       [ot_FieldName oneofType, ot_CaseGetter oneofType, ot_CaseName oneofType]) of
               Inl e \<Rightarrow> Inl e
             | Inr definedNames' \<Rightarrow>
                 writeOneofs rt g msg recTypePath rest (i + 1) (oneofTypes @ [oneofType])
                   definedNames' s'))"

fun writeFields ::
  "'s writer \<Rightarrow> generator \<Rightarrow> FieldDescriptorProto list \<Rightarrow> fieldType list \<Rightarrow> StringSet \<Rightarrow> 's \<Rightarrow>
     error + (fieldType list \<times> 's)"
where
  "writeFields w g [] flds definedNames s = Inr (flds, s)"
| "writeFields w g (field # rest) flds definedNames s =
     (case resolveFieldType g field False of
        Inl e \<Rightarrow> Inl e
      | Inr fieldType \<Rightarrow>
          if field_oneof_index field \<noteq> None
          then writeFields w g rest (flds @ [fieldType]) definedNames s
          else
            let fieldName = uniqueName (field_name field) reservedFieldNames ''_''
            in if Contains definedNames fieldName then Inl (NameClash ''field'' fieldName)
               else
                 (case ToitTypeAnnotation g fieldType False of
                    Inl e \<Rightarrow> Inl e
                  | Inr t \<Rightarrow>
                      (case DefaultValue g fieldType of
                         Inl e \<Rightarrow> Inl e
                       | Inr defaultValue \<Rightarrow>
                           (case call_ign w (Variable fieldName t defaultValue) s of
                              Inl e \<Rightarrow> Inl e
                            | Inr s' \<Rightarrow>
                                writeFields w g rest (flds @ [fieldType])
                                  (Add definedNames [fieldName]) s'))))"

text \<open>The class that \<open>writeMessage\<close> writes after the nested enums and messages.\<close>

definition writeMessageClass ::
  "'s runtime \<Rightarrow> generator \<Rightarrow> DescriptorProto \<Rightarrow> string \<Rightarrow> string list \<Rightarrow> 's gen"
where
  "writeMessageClass rt g msg className recTypePath s0 =
     (case call_ign (rt_write rt) (StartClass className ''_protobuf.Message'') s0 of
        Inl e \<Rightarrow> Inl e
      | Inr s1 \<Rightarrow>
          (case writeOneofs rt g msg recTypePath (msg_oneof_decl msg) 0 [] [] s1 of
             Inl e \<Rightarrow> Inl e
           | Inr ((oneofTypes, definedNames), s2) \<Rightarrow>
               (case writeFields (rt_write rt) g (msg_field msg) [] definedNames s2 of
                  Inl e \<Rightarrow> Inl e
                | Inr (flds, s3) \<Rightarrow>
                    FirstError
                      [call_ign (rt_write rt) NewLine,
                       if ConvertHooks (g_options g)
                         then writeDeserializeIntoMethod (rt_write rt) g className flds oneofTypes else skip,
                       writeDefaultConstructor (rt_write rt) g flds oneofTypes,
                       writeDeserializeConstructor (rt_write rt) g flds oneofTypes,
                       if ConvertHooks (g_options g)
                         then writeClassConvertHooks (rt_write rt) g flds oneofTypes else skip,
                       writeSerializeMethod (rt_write rt) g flds oneofTypes,
                       writeNumFieldsSetMethod (rt_write rt) g flds oneofTypes,
                       writeProtobufSizeMethod (rt_write rt) g flds oneofTypes,
                       call_ign (rt_write rt) EndClass] s3)))"

fun writeMessage :: "'s runtime \<Rightarrow> generator \<Rightarrow> DescriptorProto \<Rightarrow> string list \<Rightarrow> 's gen" where
  "writeMessage rt g (DescriptorProto n fs nested enums oneofs me) typePath =
     (let tn = typeName n typePath
      in case lookupType g tn of
           None \<Rightarrow> (\<lambda>s. Inl (LocalMsgNotFound tn))
         | Some typ \<Rightarrow>
             let recTypePath = typePath @ [n];
                 className = ToitType typ []
             in FirstError
                  [call_ign (rt_write rt) (SingleLineComment (''MESSAGE START: '' @ tn)),
                   FirstError (map (\<lambda>enum. writeEnum (rt_write rt) g enum recTypePath) enums),
                   FirstError (map (\<lambda>subMsg. writeMessage rt g subMsg recTypePath)
                     (filter (\<lambda>subMsg. \<not> map_entry subMsg) nested)),
                   writeMessageClass rt g (DescriptorProto n fs nested enums oneofs me) className
                     recTypePath,
                   call_ign (rt_write rt) (SingleLineComment (''MESSAGE END: '' @ tn)),
                   call_ign (rt_write rt) NewLine])"

declare writeMessage.simps [simp del]

section \<open>Generator: files and the run\<close>

text \<open>
  The loop of \<open>generateFile\<close> over the dependencies gives every dependency an alias,
  records it in \<open>g.imports\<close> and writes the import.
\<close>

fun importDependencies ::
  "'s runtime \<Rightarrow> string \<Rightarrow> StringSet \<Rightarrow> string list \<Rightarrow> generator \<Rightarrow> 's \<Rightarrow> generator \<times> 's"
where
  "importDependencies rt fileName importNames [] g s = (g, s)"
| "importDependencies rt fileName importNames (dep # deps) g s =
     (let alias = uniqueName (fileImportAlias (rt_ToSnakeCase rt) dep) importNames ''_'';
          g' = g\<lparr> g_imports := (g_imports g)(dep \<mapsto> alias) \<rparr>
      in importDependencies rt fileName importNames deps g'
           (snd (rt_write rt (ImportAs (resolveImport (g_importResolver g') fileName dep) alias) s)))"

definition generateFile ::
  "'s runtime \<Rightarrow> generator \<Rightarrow> FileDescriptorProto \<Rightarrow>
     error + ('s CodeGeneratorResponse_File \<times> generator)"
where
  "generateFile rt g file =
     (case FirstError
             [call_ign (rt_write rt) (SingleLineComment ''Code generated by protoc-gen-toit. DO NOT EDIT.''),
              call_ign (rt_write rt) (SingleLineComment (''source: '' @ file_name file)),
              call_ign (rt_write rt) NewLine,
              call_ign (rt_write rt) (ImportAs ''encoding.protobuf'' ''_protobuf''),
              call_ign (rt_write rt) (ImportAs ''core'' ''_core'')] (rt_NewWriter rt) of
        Inl e \<Rightarrow> Inl e
      | Inr s1 \<Rightarrow>
          let g1 = g\<lparr> g_imports := (g_imports g)(file_name file \<mapsto> []) \<rparr>;
              importNames = [''_protobuf'', ''_core''];
              (g2, s2) = importDependencies rt (file_name file) importNames (file_dependency file) g1 s1;
              typePath = (case file_package file of None \<Rightarrow> [] | Some pkg \<Rightarrow> [pkg])
          in case FirstError
                    [call_ign (rt_write rt) NewLine,
                     forEach (file_enum_type file) (\<lambda>enum. writeEnum (rt_write rt) g2 enum typePath),
                     forEach (file_message_type file) (\<lambda>msg. writeMessage rt g2 msg typePath)] s2 of
               Inl e \<Rightarrow> Inl e
             | Inr s3 \<Rightarrow>
                 Inr (\<lparr> resp_name = protoToFile (file_name file), resp_content = s3 \<rparr>, g2))"

fun generateFiles ::
  "'s runtime \<Rightarrow> StringSet \<Rightarrow> FileDescriptorProto list \<Rightarrow> generator \<Rightarrow>
     's CodeGeneratorResponse_File list \<Rightarrow> error + 's CodeGeneratorResponse_File list"
where
  "generateFiles rt files [] g res = Inr res"
| "generateFiles rt files (file # rest) g res =
     (if Contains files (file_name file) then
        (case generateFile rt g file of
           Inl e \<Rightarrow> Inl e
         | Inr (r, g') \<Rightarrow> generateFiles rt files rest g' (res @ [r]))
      else generateFiles rt files rest g res)"

definition Generate :: "'s runtime \<Rightarrow> generator \<Rightarrow> error + 's CodeGeneratorResponse_File list" where
  "Generate rt g0 =
     (let g = resolveTypes g0;
          files = file_to_generate (g_req g)
      in generateFiles rt files (proto_file (g_req g)) g [])"

definition parseMap :: "string \<Rightarrow> string \<Rightarrow> string \<Rightarrow> gomap" where
  "parseMap inp groupSep kvSep =
     fold (\<lambda>element res.
             case SplitN2 element kvSep of
               k # v # _ \<Rightarrow> go_put k v res
             | _ \<Rightarrow> res)
          (Split inp groupSep) []"

definition constructorInitializersParam :: string where
  "constructorInitializersParam = ''constructor_initializers''"

definition importLibraryParam :: string where
  "importLibraryParam = ''import_library''"

definition convertHooksParam :: string where
  "convertHooksParam = ''convert_hooks''"

definition coreObjectsParam :: string where
  "coreObjectsParam = ''core_objects''"

definition boolParam :: "gomap \<Rightarrow> string \<Rightarrow> bool \<Rightarrow> error + bool" where
  "boolParam params key dflt =
     (case map_of params key of
        None \<Rightarrow> Inr dflt
      | Some v \<Rightarrow> (case ParseBool v of None \<Rightarrow> Inl (ParseOptionError key) | Some b \<Rightarrow> Inr b))"

definition parseGeneratorOptions :: "gomap \<Rightarrow> error + generatorOptions" where
  "parseGeneratorOptions params =
     bindE (boolParam params constructorInitializersParam False) (\<lambda>ci.
     bindE (boolParam params convertHooksParam False) (\<lambda>ch.
     bindE (boolParam params coreObjectsParam True) (\<lambda>co.
       Inr \<lparr> ConstructorInitializers = ci, ConvertHooks = ch, CoreObjects = co,
             ImportLibraries =
               (case map_of params importLibraryParam of
                  None \<Rightarrow> []
                | Some v \<Rightarrow> parseMap v '','' ''='') \<rparr>)))"

text \<open>
  \<open>newImportResolver\<close> stores its rule into the map it is given, which is the map of the
  options: the options of the generator hold the rule too.
\<close>

definition newGenerator :: "'s runtime \<Rightarrow> CodeGeneratorRequest \<Rightarrow> gomap \<Rightarrow> error + generator" where
  "newGenerator rt req params =
     bindE (parseGeneratorOptions params) (\<lambda>options.
       let r = newImportResolver (rt_rangeLibraries rt) (ImportLibraries options)
       in Inr \<lparr> g_req = req,
                g_options = options\<lparr> ImportLibraries := values' r \<rparr>,
                g_importResolver = r,
                g_types = Map.empty,
                g_imports = Map.empty \<rparr>)"

definition Run :: "'s runtime \<Rightarrow> CodeGeneratorRequest \<Rightarrow> error + 's CodeGeneratorResponse_File list" where
  "Run rt req =
     bindE (newGenerator rt req (parseMap (parameter req) '';'' ''='')) (\<lambda>g. Generate rt g)"

section \<open>A writer that records its calls\<close>

text \<open>
  The writer whose state is the list of the calls made so far, none of which fails. With
  it the generated file is the sequence of the generator's calls of the writer.
\<close>

definition recorder :: "(wop list) runtime" where
  "recorder =
     \<lparr> rt_NewWriter = [],
       rt_write = (\<lambda>op s. (None, s @ [op])),
       rt_ToSnakeCase = (\<lambda>x. x),
       rt_rangeLibraries = (\<lambda>m. m),
       rt_rangeCaseFields = (\<lambda>m. m) \<rparr>"

text \<open>
  An order of \<open>range\<close> over a map visits every entry once: it is a rearrangement of the
  entries.
\<close>

definition range_order :: "('a list \<Rightarrow> 'a list) \<Rightarrow> bool" where
  "range_order rng = (\<forall>m. mset (rng m) = mset m)"

section \<open>The specification's reading of import resolution\<close>


section \<open>Example descriptors\<close>

text \<open>
  The descriptors the closed theorems below are evaluated on. \<open>ex_file\<close> is
  \<^verbatim>\<open>
  package demo; import "google/protobuf/duration.proto";
  enum Color { RED = 0; }
  message Msg {
    int32 id = 1; repeated string tags = 2; map<string, int32> counts = 3;
    google.protobuf.Duration ttl = 4;
    oneof value { int32 i = 5; string s = 6; }
  }
  \<close>
  as the protocol compiler hands it to a plugin, the map field being a repeated field of
  the synthesised map-entry message \<open>CountsEntry\<close>.
\<close>

definition mkField ::
  "string \<Rightarrow> int \<Rightarrow> FieldLabel \<Rightarrow> FieldKind \<Rightarrow> string \<Rightarrow> int option \<Rightarrow> FieldDescriptorProto"
where
  "mkField n i l t tn oi =
     \<lparr> field_name = n, field_number = i, field_label = l, field_type = t,
       field_type_name = tn, field_oneof_index = oi \<rparr>"


















section \<open>Notions used to state the properties\<close>


text \<open>
  The fields the generator classifies while it writes a message: the fields of the
  message itself and, recursively, of its nested messages that are not map entries.
\<close>

fun fieldsWritten :: "DescriptorProto \<Rightarrow> FieldDescriptorProto list" where
  "fieldsWritten (DescriptorProto n fs nested enums oneofs me) =
     fs @ concat (map fieldsWritten (filter (\<lambda>m. \<not> map_entry m) nested))"

text \<open>The response of a run: \<open>nil\<close> where the run returns an error.\<close>

definition response :: "error + 'a \<Rightarrow> 'a option" where
  "response r = (case r of Inl e \<Rightarrow> None | Inr x \<Rightarrow> Some x)"

text \<open>A request with one small file to generate and one file that is only a dependency.\<close>

definition small_req :: CodeGeneratorRequest where
  "small_req =
     \<lparr> file_to_generate = [''a/b.proto''],
       parameter = ''constructor_initializers=true'',
       proto_file =
         [\<lparr> file_name = ''dep.proto'', file_package = None, file_dependency = [],
            file_message_type = [], file_enum_type = [] \<rparr>,
          \<lparr> file_name = ''a/b.proto'', file_package = Some ''a'',
            file_dependency = [''dep.proto''],
            file_message_type =
              [DescriptorProto ''M'' [mkField ''id'' 1 LABEL_OPTIONAL TYPE_INT32 [] None]
                 [] [] [] False],
            file_enum_type = [] \<rparr>] \<rparr>"


text \<open>The three names recorded for a member of a oneof: its constant, its getter, its setter.\<close>

definition caseFieldNames :: "string \<Rightarrow> string list" where
  "caseFieldNames fieldName = [ToUpper fieldName, fieldName, fieldName @ ''='']"

text \<open>
  The request for the file \<open>oneof.proto\<close>,
  \<^verbatim>\<open>message MessageWithOneOf { oneof value { uint32 i = 1; string s = 2; } }\<close>
  with constructor initializers.
\<close>

definition oneof_req :: CodeGeneratorRequest where
  "oneof_req =
     \<lparr> file_to_generate = [''oneof.proto''],
       parameter = ''constructor_initializers=1'',
       proto_file =
         [\<lparr> file_name = ''oneof.proto'', file_package = None, file_dependency = [],
            file_message_type =
              [DescriptorProto ''MessageWithOneOf''
                 [mkField ''i'' 1 LABEL_OPTIONAL TYPE_UINT32 [] (Some 0),
                  mkField ''s'' 2 LABEL_OPTIONAL TYPE_STRING [] (Some 0)]
                 [] [] [OneofDescriptorProto ''value''] False],
            file_enum_type = [] \<rparr>] \<rparr>"

text \<open>
  A list of member names of a oneof is free of clashes with the defined names: no name of a
  member is defined, and no two members of the list share a name.
\<close>

definition clash_free :: "string list \<Rightarrow> string list \<Rightarrow> bool" where
  "clash_free xs dn =
     ((\<forall>x \<in> set xs. set (caseFieldNames x) \<inter> set dn = {}) \<and>
      (\<forall>x \<in># mset xs. \<forall>y \<in># mset xs - {#x#}.
         set (caseFieldNames x) \<inter> set (caseFieldNames y) = {}))"

text \<open>Two results agree: both are errors, or both are the same lists up to the set of defined names.\<close>

definition agree_names :: "error + StringSet \<Rightarrow> error + StringSet \<Rightarrow> bool" where
  "agree_names r1 r2 =
     (case r1 of
        Inl e1 \<Rightarrow> isl r2
      | Inr d1 \<Rightarrow> (case r2 of Inl e2 \<Rightarrow> False | Inr d2 \<Rightarrow> set d1 = set d2))"

definition agree_oneofs ::
  "error + ((oneofType list \<times> StringSet) \<times> 's) \<Rightarrow> error + ((oneofType list \<times> StringSet) \<times> 's) \<Rightarrow> bool"
where
  "agree_oneofs r1 r2 =
     (case r1 of
        Inl e1 \<Rightarrow> isl r2
      | Inr p1 \<Rightarrow>
          (case r2 of
             Inl e2 \<Rightarrow> False
           | Inr p2 \<Rightarrow>
               fst (fst p1) = fst (fst p2) \<and> snd p1 = snd p2 \<and>
               set (snd (fst p1)) = set (snd (fst p2))))"

text \<open>Two generators of the writer agree: from every state, both fail or both reach the same state.\<close>

definition agree :: "'s gen \<Rightarrow> 's gen \<Rightarrow> bool" where
  "agree f1 f2 = (\<forall>s. response (f1 s) = response (f2 s))"

section \<open>Names of a file and of a class\<close>











section \<open>Import resolver: properties\<close>





lemma map_of_go_put: "map_of (go_put k v m) x = (if x = k then Some v else map_of m x)"
  by (induction k v m rule: go_put.induct) auto

lemma set_go_put: "set (map fst (go_put k v m)) = insert k (set (map fst m))"
  by (induction k v m rule: go_put.induct) auto

lemma keys_newImportResolver:
  assumes "range_order rng"
  shows "set (keys (newImportResolver rng libs)) = insert ''google/protobuf/'' (set (map fst libs))"
proof -
  let ?m = "go_put ''google/protobuf/'' (protoLibrary @ ''.google.protobuf'') libs"
  from assms have "mset (rng ?m) = mset ?m" by (simp add: range_order_def)
  then have "set (rng ?m) = set ?m" by (rule mset_eq_setD)
  then have "set (map fst (rng ?m)) = set (map fst ?m)" by simp
  then show ?thesis
    by (simp add: newImportResolver_def Let_def set_go_put del: set_map)
qed






text \<open>
  Claim C10. Whatever rules the user passes, the resolver holds the prefix
  \<open>google/protobuf/\<close> among its keys and maps it to \<open>protogen.google.protobuf\<close>; a
  user rule for that prefix is overwritten.
\<close>

theorem builtin_rule_present:
  assumes "range_order rng"
  shows "''google/protobuf/'' \<in> set (keys (newImportResolver rng libs)) \<and>
         map_of (values' (newImportResolver rng libs)) ''google/protobuf/'' =
           Some ''protogen.google.protobuf'' \<and>
         go_get (values' (newImportResolver rng libs)) ''google/protobuf/'' =
           ''protogen.google.protobuf''"
proof -
  have "map_of (values' (newImportResolver rng libs)) ''google/protobuf/'' =
      Some ''protogen.google.protobuf''"
    by (simp add: newImportResolver_def Let_def map_of_go_put protoLibrary_def)
  then show ?thesis
    by (simp add: keys_newImportResolver [OF assms] go_get_def)
qed

theorem builtin_rule_present_witness:
  "range_order (rev :: gomap \<Rightarrow> gomap) \<and>
   ''google/protobuf/'' \<in> set (keys (newImportResolver rev [(''a/'', ''X''), (''google/protobuf/'', ''mine'')])) \<and>
   map_of (values' (newImportResolver rev [(''a/'', ''X''), (''google/protobuf/'', ''mine'')]))
       ''google/protobuf/'' = Some ''protogen.google.protobuf'' \<and>
   go_get (values' (newImportResolver rev [(''a/'', ''X''), (''google/protobuf/'', ''mine'')]))
       ''google/protobuf/'' = ''protogen.google.protobuf''"
proof -
  have h: "range_order (rev :: gomap \<Rightarrow> gomap)" by (simp add: range_order_def)
  from builtin_rule_present [OF h, of "[(''a/'', ''X''), (''google/protobuf/'', ''mine'')]"] h
  show ?thesis by simp
qed

section \<open>Field classification: properties\<close>















section \<open>The run: properties\<close>







lemma importDependencies_types:
  "g_types (fst (importDependencies rt fileName importNames deps g s)) = g_types g"
  by (induction deps arbitrary: g s) (simp_all add: Let_def)


lemma generateFile_Inr:
  assumes "generateFile rt g file = Inr (r, g')"
  shows "resp_name r = protoToFile (file_name file) \<and> g_types g' = g_types g"
proof (cases "FirstError
    [call_ign (rt_write rt) (SingleLineComment ''Code generated by protoc-gen-toit. DO NOT EDIT.''),
     call_ign (rt_write rt) (SingleLineComment (''source: '' @ file_name file)),
     call_ign (rt_write rt) NewLine,
     call_ign (rt_write rt) (ImportAs ''encoding.protobuf'' ''_protobuf''),
     call_ign (rt_write rt) (ImportAs ''core'' ''_core'')] (rt_NewWriter rt)")
  case (Inl e)
  with assms show ?thesis by (simp add: generateFile_def)
next
  case (Inr s1)
  let ?g1 = "g\<lparr> g_imports := (g_imports g)(file_name file \<mapsto> []) \<rparr>"
  let ?imp = "importDependencies rt (file_name file) [''_protobuf'', ''_core'']
      (file_dependency file) ?g1 s1"
  let ?typePath = "case file_package file of None \<Rightarrow> [] | Some pkg \<Rightarrow> [pkg]"
  obtain g2 s2 where imp: "?imp = (g2, s2)" by (cases ?imp)
  have types: "g_types g2 = g_types g"
    using importDependencies_types [of rt "file_name file" "[''_protobuf'', ''_core'']"
        "file_dependency file" ?g1 s1] imp by simp
  show ?thesis
  proof (cases "FirstError
      [call_ign (rt_write rt) NewLine,
       forEach (file_enum_type file) (\<lambda>enum. writeEnum (rt_write rt) g2 enum ?typePath),
       forEach (file_message_type file) (\<lambda>msg. writeMessage rt g2 msg ?typePath)] s2")
    case (Inl e)
    with assms Inr imp show ?thesis by (simp add: generateFile_def Let_def)
  next
    case s3: (Inr s3)
    with assms Inr imp have "r = \<lparr> resp_name = protoToFile (file_name file), resp_content = s3 \<rparr>"
      and "g' = g2"
      by (simp_all add: generateFile_def Let_def)
    with types show ?thesis by simp
  qed
qed

lemmas generateFile_name = generateFile_Inr [THEN conjunct1]


lemma generateFiles_names:
  "generateFiles rt files fs g res = Inr out \<Longrightarrow>
     map resp_name out =
       map resp_name res @
       map (\<lambda>f. protoToFile (file_name f)) (filter (\<lambda>f. Contains files (file_name f)) fs)"
proof (induction fs arbitrary: g res)
  case Nil
  then show ?case by simp
next
  case (Cons a fs)
  show ?case
  proof (cases "Contains files (file_name a)")
    case False
    with Cons show ?thesis by simp
  next
    case True
    with Cons.prems obtain r g' where gen: "generateFile rt g a = Inr (r, g')"
      and rest: "generateFiles rt files fs g' (res @ [r]) = Inr out"
      by (auto split: sum.splits)
    from Cons.IH [OF rest] generateFile_name [OF gen] True show ?thesis by simp
  qed
qed

lemma newGenerator_fields:
  "newGenerator rt req params = Inr g \<Longrightarrow> g_req g = req \<and> g_types g = Map.empty"
  by (auto simp: newGenerator_def bindE_def Let_def split: sum.splits)

lemma Run_unfold:
  "Run rt req =
     (case newGenerator rt req (parseMap (parameter req) '';'' ''='') of
        Inl e \<Rightarrow> Inl e
      | Inr g \<Rightarrow>
          generateFiles rt (file_to_generate req) (proto_file req)
            (g\<lparr> g_types := resolveTypesFiles (proto_file req) Map.empty \<rparr>) [])"
  by (auto simp: Run_def bindE_def Generate_def resolveTypes_def Let_def
      dest: newGenerator_fields split: sum.splits)



text \<open>
  Claim C8. The response of a successful run holds, in the order of the request's list of
  file descriptors, one generated file for every descriptor whose file is among the files
  to generate, named by \<open>protoToFile\<close>, which replaces the extension \<open>.proto\<close> by
  \<open>_pb.toit\<close>. Where the descriptors have distinct names and every file to generate has
  its descriptor in the request (as the protocol compiler guarantees), these are as many
  generated files as there are files to generate.
\<close>

lemma protoToFile_proto: "protoToFile (stem @ ''.proto'') = stem @ ''_pb.toit''"
  by (simp add: protoToFile_def HasSuffix_def TrimSuffix_def)

lemma length_filter_listed:
  assumes "distinct (map f xs)" and "S \<subseteq> set (map f xs)"
  shows "length (filter (\<lambda>x. f x \<in> S) xs) = card S"
proof -
  let ?ys = "filter (\<lambda>n. n \<in> S) (map f xs)"
  have "length (filter (\<lambda>x. f x \<in> S) xs) = length ?ys"
    by (simp add: filter_map comp_def)
  moreover have "distinct ?ys" using assms(1) by (rule distinct_filter)
  then have "card (set ?ys) = length ?ys" by (rule distinct_card)
  moreover have "set ?ys = S" using assms(2) by auto
  ultimately show ?thesis by simp
qed

theorem response_entries:
  assumes "Run rt req = Inr resp"
  shows "map resp_name resp =
           map (\<lambda>f. protoToFile (file_name f))
             (filter (\<lambda>f. file_name f \<in> set (file_to_generate req)) (proto_file req)) \<and>
         (\<forall>f \<in> set (proto_file req). \<forall>stem. file_name f = stem @ ''.proto'' \<longrightarrow>
            protoToFile (file_name f) = stem @ ''_pb.toit'') \<and>
         (distinct (map file_name (proto_file req)) \<and>
          set (file_to_generate req) \<subseteq> set (map file_name (proto_file req)) \<longrightarrow>
            length resp = card (set (file_to_generate req)))"
proof -
  from assms obtain g where
    "generateFiles rt (file_to_generate req) (proto_file req) g [] = Inr resp"
    by (auto simp: Run_unfold split: sum.splits)
  from generateFiles_names [OF this]
  have names: "map resp_name resp =
      map (\<lambda>f. protoToFile (file_name f))
        (filter (\<lambda>f. file_name f \<in> set (file_to_generate req)) (proto_file req))"
    by (simp add: Contains_def)
  have "length resp = card (set (file_to_generate req))"
    if "distinct (map file_name (proto_file req))"
      and "set (file_to_generate req) \<subseteq> set (map file_name (proto_file req))"
  proof -
    have "length resp = length (map resp_name resp)" by simp
    also have "\<dots> = length (filter (\<lambda>f. file_name f \<in> set (file_to_generate req)) (proto_file req))"
      by (simp only: names length_map)
    also have "\<dots> = card (set (file_to_generate req))"
      using that by (rule length_filter_listed)
    finally show ?thesis .
  qed
  with names show ?thesis by (simp add: protoToFile_proto)
qed

theorem response_entries_witness:
  "map resp_name (projr (Run recorder small_req)) = [''a/b_pb.toit''] \<and>
   \<not> isl (Run recorder small_req) \<and>
   length (projr (Run recorder small_req)) = card (set (file_to_generate small_req))"
proof -
  have ok: "\<not> isl (Run recorder small_req)" by code_simp
  then obtain resp where h: "Run recorder small_req = Inr resp"
    by (cases "Run recorder small_req") auto
  have d: "distinct (map file_name (proto_file small_req))"
    and sub: "set (file_to_generate small_req) \<subseteq> set (map file_name (proto_file small_req))"
    by (simp_all add: small_req_def)
  have f: "map (\<lambda>f. protoToFile (file_name f))
      (filter (\<lambda>f. file_name f \<in> set (file_to_generate small_req)) (proto_file small_req)) =
      [''a/b_pb.toit'']"
    by code_simp
  from response_entries [OF h] d sub f h ok show ?thesis by simp
qed

section \<open>Well-known types: properties\<close>













section \<open>Determinism\<close>

text \<open>
  The only places where a run could depend on more than its input are the two loops over
  Go maps. The key list of the import resolver is sorted after the loop; the loop over the
  case fields of a oneof only checks names against the set of defined names and adds them
  to it, so the order can change which clash is reported, never whether one is.
\<close>

lemma checkCaseFields_Cons:
  "checkCaseFields (x # xs) dn =
     (if set (caseFieldNames x) \<inter> set dn \<noteq> {}
      then Inl (if ToUpper x \<in> set dn then NameClash ''oneof constant'' (ToUpper x)
                else if x \<in> set dn then NameClash ''oneof getter'' x
                else NameClash ''oneof setter'' (x @ ''=''))
      else checkCaseFields xs (dn @ caseFieldNames x))"
  by (auto simp: Let_def Contains_def Add_def caseFieldNames_def)

lemma clash_free_Cons:
  "clash_free (x # xs) dn \<longleftrightarrow>
     set (caseFieldNames x) \<inter> set dn = {} \<and> clash_free xs (dn @ caseFieldNames x)"
proof -
  let ?c = "\<lambda>x. set (caseFieldNames x)"
  let ?M = "mset xs"
  have pair: "(\<forall>a \<in># add_mset x ?M. \<forall>b \<in># add_mset x ?M - {#a#}. ?c a \<inter> ?c b = {}) \<longleftrightarrow>
      (\<forall>b \<in># ?M. ?c x \<inter> ?c b = {}) \<and> (\<forall>a \<in># ?M. \<forall>b \<in># ?M - {#a#}. ?c a \<inter> ?c b = {})"
    (is "?L \<longleftrightarrow> ?R1 \<and> ?R2")
  proof
    assume L: ?L
    have r1: ?R1
    proof
      fix b assume "b \<in># ?M"
      with L [rule_format, of x b] show "?c x \<inter> ?c b = {}" by simp
    qed
    have r2: ?R2
    proof (intro ballI)
      fix a b assume a: "a \<in># ?M" and b: "b \<in># ?M - {#a#}"
      from a have "add_mset x ?M - {#a#} = add_mset x (?M - {#a#})"
        by (rule diff_union_swap2)
      with b have "b \<in># add_mset x ?M - {#a#}" by simp
      with L a show "?c a \<inter> ?c b = {}" by (simp, blast)
    qed
    from r1 r2 show "?R1 \<and> ?R2" ..
  next
    assume R: "?R1 \<and> ?R2"
    show ?L
    proof (intro ballI)
      fix a b assume a: "a \<in># add_mset x ?M" and b: "b \<in># add_mset x ?M - {#a#}"
      show "?c a \<inter> ?c b = {}"
      proof (cases "a = x")
        case True
        with b have "b \<in># ?M" by simp
        with R True show ?thesis by simp
      next
        case False
        with a have am: "a \<in># ?M" by simp
        then have "add_mset x ?M - {#a#} = add_mset x (?M - {#a#})"
          by (rule diff_union_swap2)
        with b have "b = x \<or> b \<in># ?M - {#a#}" by simp
        then show ?thesis
        proof
          assume bx: "b = x"
          from R am have "?c x \<inter> ?c a = {}" by simp
          with bx show ?thesis by blast
        next
          assume "b \<in># ?M - {#a#}"
          with R am show ?thesis by simp
        qed
      qed
    qed
  qed
  have hd: "(\<forall>y \<in> set (x # xs). ?c y \<inter> set dn = {}) \<longleftrightarrow>
      ?c x \<inter> set dn = {} \<and> (\<forall>y \<in> set xs. ?c y \<inter> set dn = {})"
    by simp
  have tl: "(\<forall>y \<in> set xs. ?c y \<inter> set (dn @ caseFieldNames x) = {}) \<longleftrightarrow>
      (\<forall>y \<in> set xs. ?c y \<inter> set dn = {}) \<and> (\<forall>b \<in># ?M. ?c x \<inter> ?c b = {})"
    by (simp add: Int_Un_distrib) blast
  show ?thesis
    unfolding clash_free_def mset.simps pair hd tl by blast
qed

lemma checkCaseFields_result:
  "(clash_free xs dn \<longrightarrow> checkCaseFields xs dn = Inr (dn @ concat (map caseFieldNames xs))) \<and>
   (\<not> clash_free xs dn \<longrightarrow> isl (checkCaseFields xs dn))"
proof (induction xs arbitrary: dn)
  case Nil
  show ?case by (simp add: clash_free_def)
next
  case (Cons x xs)
  show ?case
  proof (cases "set (caseFieldNames x) \<inter> set dn = {}")
    case False
    then show ?thesis
      by (simp add: checkCaseFields_Cons clash_free_Cons del: checkCaseFields.simps)
  next
    case True
    then show ?thesis
      using Cons.IH [of "dn @ caseFieldNames x"]
      by (simp add: checkCaseFields_Cons clash_free_Cons del: checkCaseFields.simps)
  qed
qed

lemma clash_free_perm:
  assumes "mset xs = mset ys" and "set dn1 = set dn2"
  shows "clash_free xs dn1 = clash_free ys dn2"
proof -
  from assms(1) have "set xs = set ys" by (rule mset_eq_setD)
  with assms show ?thesis unfolding clash_free_def by simp
qed

lemma checkCaseFields_perm:
  assumes "mset xs = mset ys" and "set dn1 = set dn2"
  shows "agree_names (checkCaseFields xs dn1) (checkCaseFields ys dn2)"
proof -
  from assms have cf: "clash_free xs dn1 = clash_free ys dn2" by (rule clash_free_perm)
  from assms(1) have "set xs = set ys" by (rule mset_eq_setD)
  then have "set (concat (map caseFieldNames xs)) = set (concat (map caseFieldNames ys))"
    by simp
  with assms(2) cf checkCaseFields_result [of xs dn1] checkCaseFields_result [of ys dn2]
  show ?thesis
    by (cases "clash_free ys dn2") (auto simp: agree_names_def isl_def)
qed

lemma writeFields_set:
  "set dn1 = set dn2 \<Longrightarrow>
     writeFields w g fs flds dn1 s = writeFields w g fs flds dn2 s"
proof (induction fs arbitrary: flds dn1 dn2 s)
  case Nil
  show ?case by simp
next
  case (Cons a fs)
  from Cons.prems have "\<And>x. set (Add dn1 [x]) = set (Add dn2 [x])"
    by (simp add: Add_def)
  then have step: "\<And>x flds' s'. writeFields w g fs flds' (Add dn1 [x]) s' =
      writeFields w g fs flds' (Add dn2 [x]) s'"
    by (rule Cons.IH)
  have same: "\<And>flds' s'. writeFields w g fs flds' dn1 s' = writeFields w g fs flds' dn2 s'"
    using Cons.prems by (rule Cons.IH)
  from Cons.prems have c: "\<And>x. Contains dn1 x = Contains dn2 x"
    by (simp add: Contains_def)
  show ?case
    by (simp add: Let_def c step same split: sum.splits)
qed

lemma writeOneofs_order:
  assumes w: "rt_write rt2 = rt_write rt1"
    and r1: "range_order (rt_rangeCaseFields rt1)"
    and r2: "range_order (rt_rangeCaseFields rt2)"
  shows "set dn1 = set dn2 \<Longrightarrow>
     agree_oneofs (writeOneofs rt1 g msg tp oneofs i ots dn1 s)
                  (writeOneofs rt2 g msg tp oneofs i ots dn2 s)"
proof (induction oneofs arbitrary: i ots dn1 dn2 s)
  case Nil
  then show ?case by (simp add: agree_oneofs_def)
next
  case (Cons oneof rest)
  show ?case
  proof (cases "writeOneof (rt_write rt1) g msg i oneof tp s")
    case (Inl e)
    then show ?thesis by (simp add: w agree_oneofs_def)
  next
    case (Inr p)
    obtain oneofType s' where p: "p = (oneofType, s')" by (cases p)
    let ?batch = "[ot_FieldName oneofType, ot_CaseGetter oneofType, ot_CaseName oneofType]"
    let ?xs1 = "map snd (rt_rangeCaseFields rt1 (ot_CaseFields oneofType))"
    let ?xs2 = "map snd (rt_rangeCaseFields rt2 (ot_CaseFields oneofType))"
    from Cons.prems have c: "\<And>x. Contains dn1 x = Contains dn2 x"
      by (simp add: Contains_def)
    from r1 r2 have "mset ?xs1 = mset ?xs2"
      by (simp add: range_order_def)
    moreover from Cons.prems have "set (Add dn1 ?batch) = set (Add dn2 ?batch)"
      by (simp add: Add_def)
    ultimately have ag: "agree_names (checkCaseFields ?xs1 (Add dn1 ?batch))
        (checkCaseFields ?xs2 (Add dn2 ?batch))"
      by (rule checkCaseFields_perm)
    show ?thesis
    proof (cases "Contains dn2 (ot_FieldName oneofType) \<or> Contains dn2 (ot_CaseName oneofType) \<or>
        Contains dn2 (ot_CaseGetter oneofType)")
      case True
      with Inr p show ?thesis by (auto simp: w c agree_oneofs_def)
    next
      case False
      show ?thesis
      proof (cases "checkCaseFields ?xs1 (Add dn1 ?batch)")
        case l1: (Inl e1)
        with ag obtain e2 where "checkCaseFields ?xs2 (Add dn2 ?batch) = Inl e2"
          by (auto simp: agree_names_def isl_def)
        with l1 Inr p False show ?thesis by (simp add: w c agree_oneofs_def)
      next
        case d1: (Inr d1)
        with ag obtain d2 where d2: "checkCaseFields ?xs2 (Add dn2 ?batch) = Inr d2"
          and "set d1 = set d2"
          by (auto simp: agree_names_def split: sum.splits)
        from Cons.IH [OF this(2)] d1 d2 Inr p False show ?thesis
          by (simp add: w c)
      qed
    qed
  qed
qed

lemma agree_refl: "agree f f"
  by (simp add: agree_def)

lemma response_simps: "response (Inl e) = None" "response (Inr x) = Some x"
  by (simp_all add: response_def)

lemma FirstError_agree:
  "list_all2 agree fs1 fs2 \<Longrightarrow> agree (FirstError fs1) (FirstError fs2)"
proof (induction rule: list_all2_induct)
  case Nil
  show ?case by (simp add: agree_def)
next
  case (Cons f1 fs1 f2 fs2)
  show ?case
    unfolding agree_def
  proof
    fix s
    from Cons.hyps(1) have fs: "response (f1 s) = response (f2 s)" by (simp add: agree_def)
    show "response (FirstError (f1 # fs1) s) = response (FirstError (f2 # fs2) s)"
    proof (cases "f1 s")
      case (Inl e)
      with fs have "isl (f2 s)" by (simp add: response_def split: sum.splits)
      then obtain e' where "f2 s = Inl e'" by (auto simp: isl_def)
      with Inl show ?thesis by (simp add: response_def)
    next
      case (Inr s')
      with fs have "f2 s = Inr s'" by (simp add: response_def split: sum.splits)
      with Inr Cons.IH show ?thesis by (simp add: agree_def)
    qed
  qed
qed

lemma writeMessageClass_order:
  assumes w: "rt_write rt2 = rt_write rt1"
    and r1: "range_order (rt_rangeCaseFields rt1)"
    and r2: "range_order (rt_rangeCaseFields rt2)"
  shows "agree (writeMessageClass rt1 g msg className tp) (writeMessageClass rt2 g msg className tp)"
  unfolding agree_def
proof
  fix s
  let ?s1 = "snd (rt_write rt1 (StartClass className ''_protobuf.Message'') s)"
  have ag: "agree_oneofs (writeOneofs rt1 g msg tp (msg_oneof_decl msg) 0 [] [] ?s1)
      (writeOneofs rt2 g msg tp (msg_oneof_decl msg) 0 [] [] ?s1)"
    by (rule writeOneofs_order [OF w r1 r2]) simp
  show "response (writeMessageClass rt1 g msg className tp s) =
      response (writeMessageClass rt2 g msg className tp s)"
  proof (cases "writeOneofs rt1 g msg tp (msg_oneof_decl msg) 0 [] [] ?s1")
    case (Inl e)
    with ag obtain e' where "writeOneofs rt2 g msg tp (msg_oneof_decl msg) 0 [] [] ?s1 = Inl e'"
      by (auto simp: agree_oneofs_def isl_def)
    with Inl show ?thesis
      by (simp add: writeMessageClass_def w call_ign_def response_def)
  next
    case (Inr p1)
    with ag obtain p2 where p2: "writeOneofs rt2 g msg tp (msg_oneof_decl msg) 0 [] [] ?s1 = Inr p2"
      and same: "fst (fst p1) = fst (fst p2)" "snd p1 = snd p2" "set (snd (fst p1)) = set (snd (fst p2))"
      by (auto simp: agree_oneofs_def split: sum.splits)
    obtain ots d1 s2 where p1: "p1 = ((ots, d1), s2)" by (cases p1) auto
    with same obtain d2 where p2': "p2 = ((ots, d2), s2)" and d: "set d1 = set d2"
      by (cases p2) auto
    from writeFields_set [OF d]
    have "writeFields (rt_write rt1) g (msg_field msg) [] d1 s2 =
        writeFields (rt_write rt1) g (msg_field msg) [] d2 s2" .
    with Inr p2 p1 p2' show ?thesis
      by (simp add: writeMessageClass_def w call_ign_def split: sum.splits prod.splits)
  qed
qed

lemma writeMessage_order:
  assumes w: "rt_write rt2 = rt_write rt1"
    and r1: "range_order (rt_rangeCaseFields rt1)"
    and r2: "range_order (rt_rangeCaseFields rt2)"
  shows "agree (writeMessage rt1 g msg tp) (writeMessage rt2 g msg tp)"
proof (induction msg arbitrary: tp rule: fieldsWritten.induct)
  case (1 n fs nested enums oneofs me)
  let ?msg = "DescriptorProto n fs nested enums oneofs me"
  note unf1 = writeMessage.simps [of rt1 g n fs nested enums oneofs me tp]
  note unf2 = writeMessage.simps [of rt2 g n fs nested enums oneofs me tp]
  show ?case
  proof (cases "lookupType g (typeName n tp)")
    case None
    then show ?thesis
      unfolding unf1 unf2 by (simp add: agree_def Let_def)
  next
    case (Some ty)
    let ?subs = "filter (\<lambda>subMsg. \<not> map_entry subMsg) nested"
    have "list_all2 agree (map (\<lambda>subMsg. writeMessage rt1 g subMsg (tp @ [n])) ?subs)
        (map (\<lambda>subMsg. writeMessage rt2 g subMsg (tp @ [n])) ?subs)"
      using "1.IH" by (simp add: list_all2_map1 list_all2_map2 list_all2_same)
    then have subs: "agree (FirstError (map (\<lambda>subMsg. writeMessage rt1 g subMsg (tp @ [n])) ?subs))
        (FirstError (map (\<lambda>subMsg. writeMessage rt2 g subMsg (tp @ [n])) ?subs))"
      by (rule FirstError_agree)
    have cls: "agree (writeMessageClass rt1 g ?msg (ToitType ty []) (tp @ [n]))
        (writeMessageClass rt2 g ?msg (ToitType ty []) (tp @ [n]))"
      by (rule writeMessageClass_order [OF w r1 r2])
    have "agree
        (FirstError
          [call_ign (rt_write rt1) (SingleLineComment (''MESSAGE START: '' @ typeName n tp)),
           FirstError (map (\<lambda>enum. writeEnum (rt_write rt1) g enum (tp @ [n])) enums),
           FirstError (map (\<lambda>subMsg. writeMessage rt1 g subMsg (tp @ [n])) ?subs),
           writeMessageClass rt1 g ?msg (ToitType ty []) (tp @ [n]),
           call_ign (rt_write rt1) (SingleLineComment (''MESSAGE END: '' @ typeName n tp)),
           call_ign (rt_write rt1) NewLine])
        (FirstError
          [call_ign (rt_write rt1) (SingleLineComment (''MESSAGE START: '' @ typeName n tp)),
           FirstError (map (\<lambda>enum. writeEnum (rt_write rt1) g enum (tp @ [n])) enums),
           FirstError (map (\<lambda>subMsg. writeMessage rt2 g subMsg (tp @ [n])) ?subs),
           writeMessageClass rt2 g ?msg (ToitType ty []) (tp @ [n]),
           call_ign (rt_write rt1) (SingleLineComment (''MESSAGE END: '' @ typeName n tp)),
           call_ign (rt_write rt1) NewLine])"
      by (rule FirstError_agree) (simp add: agree_refl subs cls)
    with Some show ?thesis
      unfolding unf1 unf2 by (simp add: Let_def w del: FirstError.simps)
  qed
qed

lemma importDependencies_order:
  assumes "rt_write rt2 = rt_write rt1" and "rt_ToSnakeCase rt2 = rt_ToSnakeCase rt1"
  shows "importDependencies rt2 fileName importNames deps g s =
     importDependencies rt1 fileName importNames deps g s"
  by (induction deps arbitrary: g s) (simp_all add: Let_def assms)

lemma generateFile_order:
  assumes w: "rt_write rt2 = rt_write rt1"
    and sc: "rt_ToSnakeCase rt2 = rt_ToSnakeCase rt1"
    and nw: "rt_NewWriter rt2 = rt_NewWriter rt1"
    and r1: "range_order (rt_rangeCaseFields rt1)"
    and r2: "range_order (rt_rangeCaseFields rt2)"
  shows "response (generateFile rt1 g fl) = response (generateFile rt2 g fl)"
proof -
  let ?head = "FirstError
      [call_ign (rt_write rt1) (SingleLineComment ''Code generated by protoc-gen-toit. DO NOT EDIT.''),
       call_ign (rt_write rt1) (SingleLineComment (''source: '' @ file_name fl)),
       call_ign (rt_write rt1) NewLine,
       call_ign (rt_write rt1) (ImportAs ''encoding.protobuf'' ''_protobuf''),
       call_ign (rt_write rt1) (ImportAs ''core'' ''_core'')] (rt_NewWriter rt1)"
  show ?thesis
  proof (cases ?head)
    case (Inl e)
    then show ?thesis by (simp add: generateFile_def w nw response_def del: FirstError.simps)
  next
    case (Inr s1)
    let ?g1 = "g\<lparr> g_imports := (g_imports g)(file_name fl \<mapsto> []) \<rparr>"
    let ?tp = "case file_package fl of None \<Rightarrow> [] | Some pkg \<Rightarrow> [pkg]"
    obtain g2 s2 where imp1: "importDependencies rt1 (file_name fl) [''_protobuf'', ''_core'']
        (file_dependency fl) ?g1 s1 = (g2, s2)"
      by (cases "importDependencies rt1 (file_name fl) [''_protobuf'', ''_core'']
        (file_dependency fl) ?g1 s1")
    then have imp2: "importDependencies rt2 (file_name fl) [''_protobuf'', ''_core'']
        (file_dependency fl) ?g1 s1 = (g2, s2)"
      by (simp add: importDependencies_order [OF w sc])
    have msgs: "agree (forEach (file_message_type fl) (\<lambda>msg. writeMessage rt1 g2 msg ?tp))
        (forEach (file_message_type fl) (\<lambda>msg. writeMessage rt2 g2 msg ?tp))"
      unfolding forEach_def
      by (rule FirstError_agree)
         (simp add: list_all2_map1 list_all2_map2 list_all2_same writeMessage_order [OF w r1 r2])
    have "agree
        (FirstError
          [call_ign (rt_write rt1) NewLine,
           forEach (file_enum_type fl) (\<lambda>enum. writeEnum (rt_write rt1) g2 enum ?tp),
           forEach (file_message_type fl) (\<lambda>msg. writeMessage rt1 g2 msg ?tp)])
        (FirstError
          [call_ign (rt_write rt1) NewLine,
           forEach (file_enum_type fl) (\<lambda>enum. writeEnum (rt_write rt1) g2 enum ?tp),
           forEach (file_message_type fl) (\<lambda>msg. writeMessage rt2 g2 msg ?tp)])"
      by (rule FirstError_agree) (simp add: agree_refl msgs)
    then have body: "response
        (FirstError
          [call_ign (rt_write rt1) NewLine,
           forEach (file_enum_type fl) (\<lambda>enum. writeEnum (rt_write rt1) g2 enum ?tp),
           forEach (file_message_type fl) (\<lambda>msg. writeMessage rt1 g2 msg ?tp)] s2) =
        response
        (FirstError
          [call_ign (rt_write rt1) NewLine,
           forEach (file_enum_type fl) (\<lambda>enum. writeEnum (rt_write rt1) g2 enum ?tp),
           forEach (file_message_type fl) (\<lambda>msg. writeMessage rt2 g2 msg ?tp)] s2)"
      by (simp add: agree_def del: FirstError.simps)
    have e1: "generateFile rt1 g fl =
        (case FirstError
          [call_ign (rt_write rt1) NewLine,
           forEach (file_enum_type fl) (\<lambda>enum. writeEnum (rt_write rt1) g2 enum ?tp),
           forEach (file_message_type fl) (\<lambda>msg. writeMessage rt1 g2 msg ?tp)] s2 of
           Inl e \<Rightarrow> Inl e
         | Inr s3 \<Rightarrow> Inr (\<lparr> resp_name = protoToFile (file_name fl), resp_content = s3 \<rparr>, g2))"
      using Inr imp1 by (simp add: generateFile_def Let_def del: FirstError.simps)
    have e2: "generateFile rt2 g fl =
        (case FirstError
          [call_ign (rt_write rt1) NewLine,
           forEach (file_enum_type fl) (\<lambda>enum. writeEnum (rt_write rt1) g2 enum ?tp),
           forEach (file_message_type fl) (\<lambda>msg. writeMessage rt2 g2 msg ?tp)] s2 of
           Inl e \<Rightarrow> Inl e
         | Inr s3 \<Rightarrow> Inr (\<lparr> resp_name = protoToFile (file_name fl), resp_content = s3 \<rparr>, g2))"
      using Inr imp2 by (simp add: generateFile_def Let_def w nw del: FirstError.simps)
    from body show ?thesis
      unfolding e1 e2 by (auto simp: response_def split: sum.splits)
  qed
qed

lemma generateFiles_order:
  assumes w: "rt_write rt2 = rt_write rt1"
    and sc: "rt_ToSnakeCase rt2 = rt_ToSnakeCase rt1"
    and nw: "rt_NewWriter rt2 = rt_NewWriter rt1"
    and r1: "range_order (rt_rangeCaseFields rt1)"
    and r2: "range_order (rt_rangeCaseFields rt2)"
  shows "response (generateFiles rt1 listed fs g res) = response (generateFiles rt2 listed fs g res)"
proof (induction fs arbitrary: g res)
  case Nil
  show ?case by simp
next
  case (Cons fl fs)
  have gf: "response (generateFile rt1 g fl) = response (generateFile rt2 g fl)"
    by (rule generateFile_order [OF w sc nw r1 r2])
  show ?case
  proof (cases "generateFile rt1 g fl")
    case (Inl e)
    with gf obtain e' where "generateFile rt2 g fl = Inl e'"
      by (cases "generateFile rt2 g fl") (simp_all add: response_def)
    with Inl show ?thesis by (simp add: Cons.IH response_simps)
  next
    case (Inr p)
    with gf have "generateFile rt2 g fl = Inr p"
      by (cases "generateFile rt2 g fl") (simp_all add: response_def)
    with Inr show ?thesis by (simp add: Cons.IH split: prod.splits)
  qed
qed

lemma sort_mset_eq:
  fixes xs ys :: "'a::linorder list"
  assumes "mset xs = mset ys"
  shows "sort xs = sort ys"
  by (rule properties_for_sort) (simp_all add: assms)

lemma newImportResolver_order:
  assumes "range_order r1" and "range_order r2"
  shows "newImportResolver r1 libs = newImportResolver r2 libs"
proof -
  let ?m = "go_put ''google/protobuf/'' (protoLibrary @ ''.google.protobuf'') libs"
  from assms have "mset (map fst (r1 ?m)) = mset (map fst (r2 ?m))"
    by (simp add: range_order_def)
  then have "sort (map fst (r1 ?m)) = sort (map fst (r2 ?m))"
    by (rule sort_mset_eq)
  then show ?thesis
    by (simp add: newImportResolver_def Let_def)
qed

text \<open>
  Claim C7. Two runs on the same request give the same response, whatever the orders in
  which the two runs visit the entries of the maps they range over (the import rules in
  \<open>newImportResolver\<close>, the case fields of a oneof in \<open>writeMessage\<close>): either both
  fail, or both return the same list of files, with the same names and the same contents.
  The code writer, the snake-case function and the request are those of the first run.
\<close>

theorem Run_deterministic:
  assumes "range_order (rt_rangeLibraries rt)" and "range_order (rt_rangeCaseFields rt)"
    and "range_order libraryOrder" and "range_order caseFieldOrder"
  shows "response (Run (rt\<lparr> rt_rangeLibraries := libraryOrder, rt_rangeCaseFields := caseFieldOrder \<rparr>) req) =
     response (Run rt req)"
proof -
  let ?rt2 = "rt\<lparr> rt_rangeLibraries := libraryOrder, rt_rangeCaseFields := caseFieldOrder \<rparr>"
  have ng: "newGenerator ?rt2 req params = newGenerator rt req params" for params
    using newImportResolver_order [OF assms(3) assms(1)]
    by (simp add: newGenerator_def)
  have gen: "response (Generate ?rt2 g) = response (Generate rt g)" for g
    unfolding Generate_def Let_def
    by (rule generateFiles_order [symmetric]) (simp_all add: assms)
  show ?thesis
    unfolding Run_def ng
    by (cases "newGenerator rt req (parseMap (parameter req) '';'' ''='')")
       (simp_all add: bindE_def gen response_simps)
qed

lemma oneof_req_response:
  "response (Run recorder oneof_req) \<noteq> None"
  by code_simp

theorem Run_deterministic_witness:
  "range_order (rt_rangeLibraries recorder) \<and> range_order (rt_rangeCaseFields recorder) \<and>
   range_order (rev :: gomap \<Rightarrow> gomap) \<and>
   range_order (rev :: (int \<times> string) list \<Rightarrow> (int \<times> string) list) \<and>
   response (Run (recorder\<lparr> rt_rangeLibraries := rev, rt_rangeCaseFields := rev \<rparr>) oneof_req) =
     response (Run recorder oneof_req) \<and>
   response (Run recorder oneof_req) \<noteq> None"
proof -
  have a: "range_order (rt_rangeLibraries recorder)" "range_order (rt_rangeCaseFields recorder)"
    by (simp_all add: range_order_def recorder_def)
  have b: "range_order (rev :: gomap \<Rightarrow> gomap)"
    "range_order (rev :: (int \<times> string) list \<Rightarrow> (int \<times> string) list)"
    by (simp_all add: range_order_def)
  from Run_deterministic [OF a b, of oneof_req] a b oneof_req_response
  show ?thesis by simp
qed

section \<open>Names\<close>


















end
